theory Spec2Isabelle
  imports Complex_Main "HOL-Library.Multiset"
begin

section \<open>Floating-point values\<close>

text \<open>
  The Python code computes with IEEE 754 doubles (NumPy \<^verbatim>\<open>float64\<close>). A value is a
  finite number, an infinity or NaN. Finite values are idealised as reals (rounding
  and the sign of zero are not modelled); the special values follow IEEE 754: a non-zero
  number divided by zero is an infinity, zero divided by zero is NaN, every comparison
  with NaN is false. pandas uses NaN as its marker of a missing or undefined entry
  (\<^verbatim>\<open>pd.isna\<close>).
\<close>

datatype fl = Val real | PInf | NInf | NaN

fun fl_neg :: "fl \<Rightarrow> fl" where
  "fl_neg (Val a) = Val (- a)"
| "fl_neg PInf = NInf"
| "fl_neg NInf = PInf"
| "fl_neg NaN = NaN"

fun fl_add :: "fl \<Rightarrow> fl \<Rightarrow> fl" where
  "fl_add NaN _ = NaN"
| "fl_add _ NaN = NaN"
| "fl_add (Val a) (Val b) = Val (a + b)"
| "fl_add PInf NInf = NaN"
| "fl_add NInf PInf = NaN"
| "fl_add PInf _ = PInf"
| "fl_add _ PInf = PInf"
| "fl_add NInf _ = NInf"
| "fl_add _ NInf = NInf"

definition fl_sub :: "fl \<Rightarrow> fl \<Rightarrow> fl" where
  "fl_sub a b = fl_add a (fl_neg b)"

fun fl_mul :: "fl \<Rightarrow> fl \<Rightarrow> fl" where
  "fl_mul NaN _ = NaN"
| "fl_mul _ NaN = NaN"
| "fl_mul (Val a) (Val b) = Val (a * b)"
| "fl_mul PInf (Val b) = (if b = 0 then NaN else if 0 < b then PInf else NInf)"
| "fl_mul NInf (Val b) = (if b = 0 then NaN else if 0 < b then NInf else PInf)"
| "fl_mul (Val a) PInf = (if a = 0 then NaN else if 0 < a then PInf else NInf)"
| "fl_mul (Val a) NInf = (if a = 0 then NaN else if 0 < a then NInf else PInf)"
| "fl_mul PInf PInf = PInf"
| "fl_mul NInf NInf = PInf"
| "fl_mul PInf NInf = NInf"
| "fl_mul NInf PInf = NInf"

fun fl_div :: "fl \<Rightarrow> fl \<Rightarrow> fl" where
  "fl_div NaN _ = NaN"
| "fl_div _ NaN = NaN"
| "fl_div (Val a) (Val b) =
     (if b = 0 then (if a = 0 then NaN else if 0 < a then PInf else NInf)
      else Val (a / b))"
| "fl_div (Val a) PInf = Val 0"
| "fl_div (Val a) NInf = Val 0"
| "fl_div PInf (Val b) = (if 0 \<le> b then PInf else NInf)"
| "fl_div NInf (Val b) = (if 0 \<le> b then NInf else PInf)"
| "fl_div PInf PInf = NaN"
| "fl_div PInf NInf = NaN"
| "fl_div NInf PInf = NaN"
| "fl_div NInf NInf = NaN"

fun fl_abs :: "fl \<Rightarrow> fl" where
  "fl_abs (Val a) = Val \<bar>a\<bar>"
| "fl_abs PInf = PInf"
| "fl_abs NInf = PInf"
| "fl_abs NaN = NaN"

fun fl_sqrt :: "fl \<Rightarrow> fl" where
  "fl_sqrt (Val a) = (if a < 0 then NaN else Val (sqrt a))"
| "fl_sqrt PInf = PInf"
| "fl_sqrt NInf = NaN"
| "fl_sqrt NaN = NaN"

fun fl_lt :: "fl \<Rightarrow> fl \<Rightarrow> bool" where
  "fl_lt NaN _ = False"
| "fl_lt _ NaN = False"
| "fl_lt (Val a) (Val b) = (a < b)"
| "fl_lt _ NInf = False"
| "fl_lt PInf _ = False"
| "fl_lt NInf _ = True"
| "fl_lt _ PInf = True"

fun fl_le :: "fl \<Rightarrow> fl \<Rightarrow> bool" where
  "fl_le NaN _ = False"
| "fl_le _ NaN = False"
| "fl_le (Val a) (Val b) = (a \<le> b)"
| "fl_le NInf _ = True"
| "fl_le _ PInf = True"
| "fl_le _ NInf = False"
| "fl_le PInf _ = False"

definition fl_gt :: "fl \<Rightarrow> fl \<Rightarrow> bool" where
  "fl_gt a b = fl_lt b a"

definition fl_ge :: "fl \<Rightarrow> fl \<Rightarrow> bool" where
  "fl_ge a b = fl_le b a"

text \<open>\<^verbatim>\<open>pd.isna\<close>: an entry is undefined exactly when it is NaN.\<close>

definition isna :: "fl \<Rightarrow> bool" where
  "isna v = (v = NaN)"

section \<open>Indicator library (\<^verbatim>\<open>scrapers/stock_data.py\<close>, class TechnicalIndicators)\<close>

text \<open>
  A price column of a DataFrame of bars is a list of finite numbers. An indicator series
  is a list of \<^typ>\<open>fl\<close> of the same length, NaN where pandas leaves the entry
  undefined.

  \<^verbatim>\<open>Series.rolling(window=n)\<close> with the default \<^verbatim>\<open>min_periods = n\<close>: the entry at
  position \<open>i\<close> is computed from the \<open>n\<close> values at positions \<open>i - n + 1 .. i\<close> and is
  NaN while fewer than \<open>n\<close> values are available.
\<close>

definition rolling :: "nat \<Rightarrow> (real list \<Rightarrow> fl) \<Rightarrow> real list \<Rightarrow> fl list" where
  "rolling n f xs =
     map (\<lambda>i. if n = 0 \<or> Suc i < n then NaN else f (take n (drop (Suc i - n) xs)))
       [0..<length xs]"

definition w_mean :: "real list \<Rightarrow> fl" where
  "w_mean w = Val (sum_list w / real (length w))"

text \<open>Sample standard deviation (\<^verbatim>\<open>ddof = 1\<close>), undefined on fewer than two values.\<close>

definition w_std :: "real list \<Rightarrow> fl" where
  "w_std w =
     (if length w < 2 then NaN
      else let m = sum_list w / real (length w)
           in Val (sqrt (sum_list (map (\<lambda>x. (x - m) ^ 2) w) / real (length w - 1))))"

fun w_min :: "real list \<Rightarrow> fl" where
  "w_min [] = NaN"
| "w_min (x # xs) = Val (fold min xs x)"

fun w_max :: "real list \<Rightarrow> fl" where
  "w_max [] = NaN"
| "w_max (x # xs) = Val (fold max xs x)"

text \<open>\<^verbatim>\<open>calculate_sma\<close>: \<^verbatim>\<open>data.rolling(window=period).mean()\<close>.\<close>

definition calculate_sma :: "real list \<Rightarrow> nat \<Rightarrow> fl list" where
  "calculate_sma data period = rolling period w_mean data"

text \<open>
  \<^verbatim>\<open>Series.diff()\<close>: the first entry is undefined, the others are the differences of
  neighbours. \<^verbatim>\<open>Series.shift()\<close>: the first entry is undefined, the others are the
  previous values.
\<close>

fun diff :: "real list \<Rightarrow> real option list" where
  "diff [] = []"
| "diff (x # xs) = None # map2 (\<lambda>a b. Some (b - a)) (x # xs) xs"

fun shift :: "real list \<Rightarrow> real option list" where
  "shift [] = []"
| "shift (x # xs) = None # map Some (butlast (x # xs))"

text \<open>
  \<^verbatim>\<open>delta.where(delta > 0, 0)\<close> keeps an entry where the condition is true and puts 0
  elsewhere; the condition is false on the undefined first entry.
  \<^verbatim>\<open>-delta.where(delta < 0, 0)\<close> likewise, negated.
\<close>

definition gain_of :: "real option \<Rightarrow> real" where
  "gain_of d = (case d of Some r \<Rightarrow> (if r > 0 then r else 0) | None \<Rightarrow> 0)"

definition loss_of :: "real option \<Rightarrow> real" where
  "loss_of d = - (case d of Some r \<Rightarrow> (if r < 0 then r else 0) | None \<Rightarrow> 0)"

definition rsi_gain :: "real list \<Rightarrow> nat \<Rightarrow> fl list" where
  "rsi_gain data period = rolling period w_mean (map gain_of (diff data))"

definition rsi_loss :: "real list \<Rightarrow> nat \<Rightarrow> fl list" where
  "rsi_loss data period = rolling period w_mean (map loss_of (diff data))"

text \<open>
  \<^verbatim>\<open>calculate_rsi\<close>: \<^verbatim>\<open>rs = gain / loss; rsi = 100 - (100 / (1 + rs))\<close>, elementwise.
\<close>

definition rsi_of_rs :: "fl \<Rightarrow> fl" where
  "rsi_of_rs rs = fl_sub (Val 100) (fl_div (Val 100) (fl_add (Val 1) rs))"

definition calculate_rsi :: "real list \<Rightarrow> nat \<Rightarrow> fl list" where
  "calculate_rsi data period =
     map rsi_of_rs (map2 fl_div (rsi_gain data period) (rsi_loss data period))"

text \<open>
  \<^verbatim>\<open>calculate_bollinger_bands\<close>: rolling mean and rolling sample standard deviation
  over the same window; the result holds the upper, middle and lower band.
\<close>

record bollinger =
  upper :: "fl list"
  middle :: "fl list"
  lower :: "fl list"

definition calculate_bollinger_bands :: "real list \<Rightarrow> nat \<Rightarrow> real \<Rightarrow> bollinger" where
  "calculate_bollinger_bands data period std_dev =
     (let sma = rolling period w_mean data;
          std = rolling period w_std data
      in \<lparr> upper = map2 (\<lambda>m s. fl_add m (fl_mul s (Val std_dev))) sma std,
           middle = sma,
           lower = map2 (\<lambda>m s. fl_sub m (fl_mul s (Val std_dev))) sma std \<rparr>)"

text \<open>
  \<^verbatim>\<open>calculate_atr\<close>: the true range of a bar is the largest of \<open>high - low\<close>,
  \<open>|high - previous close|\<close> and \<open>|low - previous close|\<close>;
  \<^verbatim>\<open>pd.concat([tr1, tr2, tr3], axis=1).max(axis=1)\<close> skips undefined entries, so the
  first bar, which has no previous close, has true range \<open>high - low\<close>.
\<close>

definition true_range_of :: "real \<Rightarrow> real \<Rightarrow> real option \<Rightarrow> real" where
  "true_range_of h l pc =
     (case pc of
        None \<Rightarrow> h - l
      | Some c \<Rightarrow> max (h - l) (max \<bar>h - c\<bar> \<bar>l - c\<bar>))"

definition true_range :: "real list \<Rightarrow> real list \<Rightarrow> real list \<Rightarrow> real list" where
  "true_range hs ls cs =
     map (\<lambda>(h, l, pc). true_range_of h l pc) (zip hs (zip ls (shift cs)))"

definition calculate_atr :: "real list \<Rightarrow> real list \<Rightarrow> real list \<Rightarrow> nat \<Rightarrow> fl list" where
  "calculate_atr hs ls cs period = rolling period w_mean (true_range hs ls cs)"

text \<open>
  \<^verbatim>\<open>calculate_stochastic\<close>, the \<open>%K\<close> line:
  \<^verbatim>\<open>100 * (close - lowest_low) / (highest_high - lowest_low)\<close>.
\<close>

definition stoch_k_of :: "real \<Rightarrow> fl \<Rightarrow> fl \<Rightarrow> fl" where
  "stoch_k_of c lowest_low highest_high =
     fl_div (fl_mul (Val 100) (fl_sub (Val c) lowest_low)) (fl_sub highest_high lowest_low)"

definition lowest_low :: "real list \<Rightarrow> nat \<Rightarrow> fl list" where
  "lowest_low ls k_period = rolling k_period w_min ls"

definition highest_high :: "real list \<Rightarrow> nat \<Rightarrow> fl list" where
  "highest_high hs k_period = rolling k_period w_max hs"

definition calculate_stochastic_k :: "real list \<Rightarrow> real list \<Rightarrow> real list \<Rightarrow> nat \<Rightarrow> fl list" where
  "calculate_stochastic_k hs ls cs k_period =
     map (\<lambda>(c, ll, hh). stoch_k_of c ll hh)
       (zip cs (zip (lowest_low ls k_period) (highest_high hs k_period)))"

section \<open>Bars\<close>

text \<open>
  One row of the OHLCV DataFrame. \<open>stamp\<close> is the row's index value: for a
  \<^verbatim>\<open>DatetimeIndex\<close> the time in seconds, otherwise the label.
\<close>

record bar =
  stamp :: int
  open_price :: real
  high :: real
  low :: real
  close :: real
  volume :: real

datatype py_error = IndexError | KeyError | AttributeError | FetchError

section \<open>Signal analyzer (\<^verbatim>\<open>analysis/technical.py\<close>)\<close>

datatype signal = STRONG_BUY | BUY | HOLD | SELL | STRONG_SELL

record technical_signal =
  indicator :: string
  sig_value :: fl
  signal :: signal
  strength :: real
  description :: string

text \<open>\<^verbatim>\<open>_calculate_confidence\<close>: confidence from the agreement of the signals.\<close>

definition calculate_confidence :: "technical_signal list \<Rightarrow> real" where
  "calculate_confidence signals =
     (if signals = [] then 0.5
      else
        let buy_signals = length (filter (\<lambda>s. signal s \<in> {BUY, STRONG_BUY}) signals);
            sell_signals = length (filter (\<lambda>s. signal s \<in> {SELL, STRONG_SELL}) signals);
            total = length signals;
            max_agreement = max buy_signals sell_signals;
            agreement_ratio = real max_agreement / real total
        in min 0.95 (0.4 + agreement_ratio * 0.5))"

text \<open>
  \<^verbatim>\<open>analyze\<close>, restricted to the fields \<open>signals\<close> and \<open>confidence\<close> of its result.
  With fewer than 20 rows the result keeps the dataclass defaults (no signal,
  confidence 0.5). Otherwise the signals are the concatenation of the lists returned by
  the four category analyzers, taken here as given, and the confidence is computed from
  them.
\<close>

record technical_analysis_result =
  signals :: "technical_signal list"
  confidence :: real

definition analyze ::
  "nat \<Rightarrow> technical_signal list \<Rightarrow> technical_signal list \<Rightarrow> technical_signal list \<Rightarrow>
   technical_signal list \<Rightarrow> technical_analysis_result" where
  "analyze len_df trend_signals momentum_signals volatility_signals volume_signals =
     (if len_df < 20 then \<lparr> signals = [], confidence = 0.5 \<rparr>
      else
        let sigs = trend_signals @ momentum_signals @ volatility_signals @ volume_signals
        in \<lparr> signals = sigs, confidence = calculate_confidence sigs \<rparr>)"

text \<open>
  \<^verbatim>\<open>Series.nlargest(k)\<close> and \<^verbatim>\<open>Series.nsmallest(k)\<close>, as lists of values: the
  \<open>k\<close> largest values in descending order, the \<open>k\<close> smallest in ascending order.
  \<^verbatim>\<open>iloc[-50:]\<close> keeps the last 50 rows, or all of them when there are fewer.
\<close>

definition nlargest :: "nat \<Rightarrow> real list \<Rightarrow> real list" where
  "nlargest k xs = take k (rev (sort xs))"

definition nsmallest :: "nat \<Rightarrow> real list \<Rightarrow> real list" where
  "nsmallest k xs = take k (sort xs)"

definition last_rows :: "nat \<Rightarrow> 'a list \<Rightarrow> 'a list" where
  "last_rows k xs = drop (length xs - k) xs"

text \<open>
  \<^verbatim>\<open>_find_support_resistance\<close>; the result is the pair (support, resistance).
  \<^verbatim>\<open>iloc[-1]\<close> raises IndexError on an empty frame.
\<close>

definition find_support_resistance ::
  "bar list \<Rightarrow> nat \<Rightarrow> py_error + (real list \<times> real list)" where
  "find_support_resistance df num_levels =
     (if df = [] then Inl IndexError
      else
        let current_price = close (last df);
            recent_highs = nlargest (num_levels * 2) (map high (last_rows 50 df));
            recent_lows = nsmallest (num_levels * 2) (map low (last_rows 50 df));
            resistance = take num_levels (sort (filter (\<lambda>h. h > current_price) recent_highs));
            support = take num_levels (rev (sort (filter (\<lambda>l. l < current_price) recent_lows)))
        in Inr (support, resistance))"

text \<open>The two counts that \<^verbatim>\<open>_calculate_confidence\<close> takes of a signal list.\<close>

definition buy_count :: "technical_signal list \<Rightarrow> nat" where
  "buy_count sigs = length (filter (\<lambda>s. signal s = BUY \<or> signal s = STRONG_BUY) sigs)"

definition sell_count :: "technical_signal list \<Rightarrow> nat" where
  "sell_count sigs = length (filter (\<lambda>s. signal s = SELL \<or> signal s = STRONG_SELL) sigs)"

text \<open>Sample data: twenty bars with closes 1 to 20, and fifteen bars without any price change.\<close>

definition rising_bars :: "bar list" where
  "rising_bars =
     map (\<lambda>c. \<lparr> stamp = 0, open_price = c, high = c + 1, low = c - 1, close = c, volume = 0 \<rparr>)
       [1, 2, 3, 4, 5, 6, 7, 8, 9, 10, 11, 12, 13, 14, 15, 16, 17, 18, 19, 20]"

definition flat_bars :: "bar list" where
  "flat_bars =
     replicate 15 \<lparr> stamp = 0, open_price = 1, high = 1, low = 1, close = 1, volume = 0 \<rparr>"

text \<open>
  The candidate levels of \<^verbatim>\<open>_find_support_resistance\<close>: the \<open>2 * num_levels\<close> smallest
  lows of the last 50 rows that are below the current price, and the \<open>2 * num_levels\<close>
  largest highs of the last 50 rows that are above it.
\<close>

definition support_candidates :: "bar list \<Rightarrow> nat \<Rightarrow> real list" where
  "support_candidates df num_levels =
     filter (\<lambda>l. l < close (last df)) (nsmallest (num_levels * 2) (map low (last_rows 50 df)))"

definition resistance_candidates :: "bar list \<Rightarrow> nat \<Rightarrow> real list" where
  "resistance_candidates df num_levels =
     filter (\<lambda>h. h > close (last df)) (nlargest (num_levels * 2) (map high (last_rows 50 df)))"

text \<open>Sample data: eight bars with highs 11 to 18 and lows 1 to 8, the last close being 10.\<close>

definition level_bars :: "bar list" where
  "level_bars =
     map (\<lambda>k. \<lparr> stamp = 0, open_price = 10, high = 10 + k, low = k, close = 10, volume = 0 \<rparr>)
       [1, 2, 3, 4, 5, 6, 7, 8]"

section \<open>More of the indicator library: exponential averages and the indicator table\<close>

text \<open>
  \<^verbatim>\<open>data.ewm(span=period, adjust=False).mean()\<close>: the first value is the first input,
  each later value is \<open>(1 - \<alpha>) * previous + \<alpha> * input\<close> with \<open>\<alpha> = 2 / (span + 1)\<close>.
\<close>

fun ewm_from :: "real \<Rightarrow> real \<Rightarrow> real list \<Rightarrow> real list" where
  "ewm_from a y [] = []"
| "ewm_from a y (x # xs) = ((1 - a) * y + a * x) # ewm_from a ((1 - a) * y + a * x) xs"

definition calculate_ema :: "real list \<Rightarrow> nat \<Rightarrow> real list" where
  "calculate_ema data period =
     (case data of [] \<Rightarrow> [] | x # xs \<Rightarrow> x # ewm_from (2 / (real period + 1)) x xs)"

text \<open>\<^verbatim>\<open>calculate_macd\<close>: the MACD line and its signal line.\<close>

definition macd_line :: "real list \<Rightarrow> nat \<Rightarrow> nat \<Rightarrow> real list" where
  "macd_line data fast slow = map2 (-) (calculate_ema data fast) (calculate_ema data slow)"

definition macd_signal_line :: "real list \<Rightarrow> nat \<Rightarrow> nat \<Rightarrow> nat \<Rightarrow> real list" where
  "macd_signal_line data fast slow sig = calculate_ema (macd_line data fast slow) sig"

text \<open>
  A DataFrame: whether its index is a \<^verbatim>\<open>DatetimeIndex\<close> (the index values then have
  the attributes \<^verbatim>\<open>day\<close> and \<^verbatim>\<open>to_pydatetime\<close>), the names of the indicator columns
  it has, and its rows. The frame a price provider returns has rows of type
  \<^typ>\<open>bar\<close> and no indicator column. A row of the frame that
  \<^verbatim>\<open>calculate_all_indicators\<close> returns carries, besides the bar, the values of the
  indicator columns that the backtester reads (the columns \<^verbatim>\<open>sma_200\<close>, \<^verbatim>\<open>ema_12\<close>,
  \<^verbatim>\<open>ema_26\<close>, \<^verbatim>\<open>macd_histogram\<close>, \<^verbatim>\<open>stoch_k\<close>, \<^verbatim>\<open>stoch_d\<close> and \<^verbatim>\<open>obv\<close>, which it
  never reads, are left out). The value of a column that the frame does not have is
  never read.
\<close>

record indicator_row = bar +
  sma_20 :: fl
  sma_50 :: fl
  rsi_14 :: fl
  macd :: fl
  macd_signal :: fl
  bb_upper :: fl
  bb_middle :: fl
  bb_lower :: fl
  atr_14 :: fl

record 'r dataframe =
  datetime_index :: bool
  columns :: "string list"
  rows :: "'r list"

definition all_indicator_columns :: "string list" where
  "all_indicator_columns =
     [''sma_20'', ''sma_50'', ''rsi_14'', ''macd'', ''macd_signal'',
      ''bb_upper'', ''bb_middle'', ''bb_lower'', ''atr_14'']"

definition calculate_all_indicators :: "bar dataframe \<Rightarrow> indicator_row dataframe" where
  "calculate_all_indicators df =
     (let bs = rows df;
          cs = map close bs; hs = map high bs; ls = map low bs;
          c_sma_20 = calculate_sma cs 20;
          c_sma_50 = calculate_sma cs 50;
          c_rsi_14 = calculate_rsi cs 14;
          c_macd = macd_line cs 12 26;
          c_macd_signal = macd_signal_line cs 12 26 9;
          bb = calculate_bollinger_bands cs 20 2;
          c_atr_14 = calculate_atr hs ls cs 14
      in \<lparr> datetime_index = datetime_index df,
           columns = all_indicator_columns,
           rows = map (\<lambda>i.
             \<lparr> stamp = stamp (bs ! i), open_price = open_price (bs ! i), high = high (bs ! i),
               low = low (bs ! i), close = close (bs ! i), volume = volume (bs ! i),
               sma_20 = c_sma_20 ! i, sma_50 = c_sma_50 ! i, rsi_14 = c_rsi_14 ! i,
               macd = Val (c_macd ! i), macd_signal = Val (c_macd_signal ! i),
               bb_upper = upper bb ! i, bb_middle = middle bb ! i, bb_lower = lower bb ! i,
               atr_14 = c_atr_14 ! i \<rparr>) [0..<length bs] \<rparr>)"

text \<open>\<^verbatim>\<open>df.iloc[:n]\<close>: the first \<open>n\<close> rows, with the same columns.\<close>

definition iloc_prefix :: "nat \<Rightarrow> 'r dataframe \<Rightarrow> 'r dataframe" where
  "iloc_prefix n df = df \<lparr> rows := take n (rows df) \<rparr>"

section \<open>Backtest simulator (\<^verbatim>\<open>backtesting/backtester.py\<close>)\<close>

text \<open>
  A date is the index value of a row (\<^const>\<open>stamp\<close>). The numeric fields that the
  simulator computes by floating-point division are of type \<^typ>\<open>fl\<close>.
\<close>

record backtest_trade =
  symbol :: string
  entry_date :: int
  entry_price :: real
  exit_date :: "int option"
  exit_price :: "real option"
  action :: string
  target_price :: fl
  stop_loss :: fl
  return_percent :: fl
  profit_loss :: fl
  hit_target :: bool
  hit_stop_loss :: bool
  confidence_bt :: real
  technical_score :: real

definition is_profitable :: "backtest_trade \<Rightarrow> bool" where
  "is_profitable t = fl_gt (return_percent t) (Val 0)"

text \<open>\<^verbatim>\<open>statistics.mean\<close> of a non-empty list of confidences.\<close>

definition mean_conf :: "real list \<Rightarrow> real" where
  "mean_conf cs = sum_list cs / real (length cs)"

text \<open>\<^verbatim>\<open>_technical_strategy_signal\<close>. The frame is not empty when it is called.\<close>

definition technical_strategy_signal :: "indicator_row dataframe \<Rightarrow> real \<Rightarrow> string \<times> real" where
  "technical_strategy_signal df current_price =
     (let r = last (rows df);
          s_rsi =
            (if ''rsi_14'' \<in> set (columns df) \<and> \<not> isna (rsi_14 r) then
               (if fl_lt (rsi_14 r) (Val 30) then [(''buy'', 0.8)]
                else if fl_gt (rsi_14 r) (Val 70) then [(''sell'', 0.8)]
                else [(''hold'', 0.5)])
             else []);
          s_macd =
            (if ''macd'' \<in> set (columns df) \<and> ''macd_signal'' \<in> set (columns df)
                \<and> \<not> isna (macd r) \<and> \<not> isna (macd_signal r) then
               (if fl_gt (macd r) (macd_signal r) then [(''buy'', 0.7)] else [(''sell'', 0.7)])
             else []);
          s_ma =
            (if ''sma_20'' \<in> set (columns df) \<and> ''sma_50'' \<in> set (columns df)
                \<and> \<not> isna (sma_20 r) \<and> \<not> isna (sma_50 r) then
               (if fl_gt (Val current_price) (sma_20 r) \<and> fl_gt (sma_20 r) (sma_50 r)
                  then [(''buy'', 0.75)]
                else if fl_lt (Val current_price) (sma_20 r) \<and> fl_lt (sma_20 r) (sma_50 r)
                  then [(''sell'', 0.75)]
                else [])
             else []);
          sigs = s_rsi @ s_macd @ s_ma;
          buys = filter (\<lambda>(s, c). s = ''buy'') sigs;
          sells = filter (\<lambda>(s, c). s = ''sell'') sigs
      in if sigs = [] then (''hold'', 0.5)
         else if length buys > length sells then (''buy'', mean_conf (map snd buys))
         else if length sells > length buys then (''sell'', mean_conf (map snd sells))
         else (''hold'', 0.5))"

text \<open>
  \<^verbatim>\<open>_momentum_strategy_signal\<close>: rates of change over 10 and 20 rows;
  \<^verbatim>\<open>iloc[-k]\<close> is the \<open>k\<close>-th row from the end.
\<close>

definition roc :: "real \<Rightarrow> real \<Rightarrow> fl" where
  "roc c_now c_then = fl_mul (fl_sub (fl_div (Val c_now) (Val c_then)) (Val 1)) (Val 100)"

definition momentum_strategy_signal :: "indicator_row dataframe \<Rightarrow> string \<times> real" where
  "momentum_strategy_signal df =
     (let n = length (rows df) in
      if n < 20 then (''hold'', 0.5)
      else
        let roc_10 = roc (close (rows df ! (n - 1))) (close (rows df ! (n - 10)));
            roc_20 = roc (close (rows df ! (n - 1))) (close (rows df ! (n - 20)))
        in if fl_gt roc_10 (Val 5) \<and> fl_gt roc_20 (Val 10) then (''buy'', 0.8)
           else if fl_lt roc_10 (Val (- 5)) \<and> fl_lt roc_20 (Val (- 10)) then (''sell'', 0.8)
           else if fl_gt roc_10 (Val 2) then (''buy'', 0.6)
           else if fl_lt roc_10 (Val (- 2)) then (''sell'', 0.6)
           else (''hold'', 0.5))"

text \<open>
  \<^verbatim>\<open>_mean_reversion_signal\<close>. The column \<^verbatim>\<open>bb_middle\<close> is read without a test of its
  presence: a KeyError when it is missing.
\<close>

definition mean_reversion_signal ::
  "indicator_row dataframe \<Rightarrow> real \<Rightarrow> py_error + (string \<times> real)" where
  "mean_reversion_signal df current_price =
     (if ''bb_lower'' \<notin> set (columns df) \<or> ''bb_upper'' \<notin> set (columns df) then Inr (''hold'', 0.5)
      else if ''bb_middle'' \<notin> set (columns df) then Inl KeyError
      else
        let r = last (rows df) in
        if isna (bb_lower r) then Inr (''hold'', 0.5)
        else if fl_le (Val current_price) (bb_lower r) then Inr (''buy'', 0.85)
        else if fl_ge (Val current_price) (bb_upper r) then Inr (''sell'', 0.85)
        else if fl_lt (Val current_price) (bb_middle r) then Inr (''buy'', 0.55)
        else Inr (''hold'', 0.5))"

text \<open>\<^verbatim>\<open>_get_signal\<close>; \<^verbatim>\<open>iloc[-1]\<close> raises IndexError on an empty frame.\<close>

definition get_signal :: "indicator_row dataframe \<Rightarrow> string \<Rightarrow> py_error + (string \<times> real)" where
  "get_signal df strategy =
     (if rows df = [] then Inl IndexError
      else
        let current_price = close (last (rows df)) in
        if strategy = ''technical'' then Inr (technical_strategy_signal df current_price)
        else if strategy = ''momentum'' then Inr (momentum_strategy_signal df)
        else if strategy = ''mean_reversion'' then mean_reversion_signal df current_price
        else Inr (''hold'', 0.5))"

text \<open>
  The local state of the loop of \<^verbatim>\<open>_backtest_symbol\<close>: the list \<^verbatim>\<open>trades\<close>, the
  flag \<^verbatim>\<open>in_position\<close> and the object \<^verbatim>\<open>current_trade\<close> (\<^verbatim>\<open>None\<close> when there is none).
\<close>

record loop_state =
  trades_l :: "backtest_trade list"
  in_position :: bool
  current_trade :: "backtest_trade option"

definition initial_state :: loop_state where
  "initial_state = \<lparr> trades_l = [], in_position = False, current_trade = None \<rparr>"

text \<open>
  \<^verbatim>\<open>(date - current_trade.entry_date).days if hasattr(date, 'day') else i\<close>: whole days
  between two timestamps given in seconds, or the row number when the index holds no
  timestamps.
\<close>

definition holding_days :: "indicator_row dataframe \<Rightarrow> nat \<Rightarrow> backtest_trade \<Rightarrow> int" where
  "holding_days df i t =
     (if datetime_index df then (stamp (rows df ! i) - entry_date t) div 86400 else int i)"

text \<open>Entry: the trade that the loop body creates on a buy signal at row \<open>i\<close>.\<close>

definition open_trade :: "string \<Rightarrow> indicator_row dataframe \<Rightarrow> nat \<Rightarrow> real \<Rightarrow> backtest_trade" where
  "open_trade symb df i conf =
     (let price = close (rows df ! i);
          atr = (if ''atr_14'' \<in> set (columns df) then atr_14 (rows df ! i) else Val (price * 0.02))
      in \<lparr> symbol = symb, entry_date = stamp (rows df ! i), entry_price = price,
           exit_date = None, exit_price = None, action = ''buy'',
           target_price = fl_add (Val price) (fl_mul atr (Val 2)),
           stop_loss = fl_sub (Val price) (fl_mul atr (Val 1.5)),
           return_percent = Val 0, profit_loss = Val 0,
           hit_target = False, hit_stop_loss = False,
           confidence_bt = conf, technical_score = conf \<rparr>)"

text \<open>
  Exit: the three tests of the loop body in the order of the source. The first two are
  an \<^verbatim>\<open>if\<close>/\<^verbatim>\<open>elif\<close> pair and set a flag of the trade; the signal test and the
  holding-period test are separate \<^verbatim>\<open>if\<close> statements that only set \<^verbatim>\<open>should_exit\<close>
  and overwrite the local \<^verbatim>\<open>exit_reason\<close>. The result is
  (\<^verbatim>\<open>should_exit\<close>, \<^verbatim>\<open>exit_reason\<close>, the trade).
\<close>

definition check_target_stop :: "real \<Rightarrow> backtest_trade \<Rightarrow> bool \<times> string \<times> backtest_trade" where
  "check_target_stop price t =
     (if fl_ge (Val price) (target_price t) then (True, ''target'', t \<lparr> hit_target := True \<rparr>)
      else if fl_le (Val price) (stop_loss t) then (True, ''stop_loss'', t \<lparr> hit_stop_loss := True \<rparr>)
      else (False, [], t))"

definition check_exit ::
  "real \<Rightarrow> string \<Rightarrow> int \<Rightarrow> backtest_trade \<Rightarrow> bool \<times> string \<times> backtest_trade" where
  "check_exit price sig days t =
     (case check_target_stop price t of (should_exit, exit_reason, t1) \<Rightarrow>
        (case (if sig = ''sell'' then (True, ''signal'') else (should_exit, exit_reason)) of
           (should_exit2, exit_reason2) \<Rightarrow>
             (case (if days > 30 then (True, ''timeout'') else (should_exit2, exit_reason2)) of
                (should_exit3, exit_reason3) \<Rightarrow> (should_exit3, exit_reason3, t1))))"

definition close_trade :: "indicator_row dataframe \<Rightarrow> nat \<Rightarrow> real \<Rightarrow> backtest_trade \<Rightarrow> backtest_trade" where
  "close_trade df i position_size t =
     (let price = close (rows df ! i);
          rp = fl_mul (fl_div (Val (price - entry_price t)) (Val (entry_price t))) (Val 100)
      in t \<lparr> exit_date := Some (stamp (rows df ! i)), exit_price := Some price,
             return_percent := rp,
             profit_loss := fl_div (fl_mul (Val position_size) rp) (Val 100) \<rparr>)"

text \<open>One iteration of the loop, for row \<open>i\<close>.\<close>

definition backtest_step ::
  "string \<Rightarrow> indicator_row dataframe \<Rightarrow> real \<Rightarrow> string \<Rightarrow> nat \<Rightarrow> loop_state \<Rightarrow>
   py_error + loop_state" where
  "backtest_step symb df position_size strategy i st =
     (if \<not> in_position st then
        (case get_signal (iloc_prefix (i + 1) df) strategy of
           Inl e \<Rightarrow> Inl e
         | Inr (sig, conf) \<Rightarrow>
             if sig = ''buy'' \<and> conf > 0.6
             then Inr (st \<lparr> in_position := True, current_trade := Some (open_trade symb df i conf) \<rparr>)
             else Inr st)
      else
        (case current_trade st of
           None \<Rightarrow> Inl AttributeError
         | Some t \<Rightarrow>
             (case get_signal (iloc_prefix (i + 1) df) strategy of
                Inl e \<Rightarrow> Inl e
              | Inr (sig, conf) \<Rightarrow>
                  (case check_exit (close (rows df ! i)) sig (holding_days df i t) t of
                     (should_exit, exit_reason, t1) \<Rightarrow>
                       if should_exit
                       then Inr (st \<lparr> trades_l := trades_l st @ [close_trade df i position_size t1],
                                      current_trade := None, in_position := False \<rparr>)
                       else Inr (st \<lparr> current_trade := Some t1 \<rparr>)))))"

text \<open>The loop \<^verbatim>\<open>for i in range(50, len(df))\<close>, over a list of row numbers.\<close>

fun backtest_loop ::
  "string \<Rightarrow> indicator_row dataframe \<Rightarrow> real \<Rightarrow> string \<Rightarrow> nat list \<Rightarrow> loop_state \<Rightarrow>
   py_error + loop_state" where
  "backtest_loop symb df position_size strategy [] st = Inr st"
| "backtest_loop symb df position_size strategy (i # is) st =
     (case backtest_step symb df position_size strategy i st of
        Inl e \<Rightarrow> Inl e
      | Inr st' \<Rightarrow> backtest_loop symb df position_size strategy is st')"

text \<open>
  \<^verbatim>\<open>_backtest_symbol\<close>. The price provider is a function from the symbol to its answer
  for the period of the run: an exception, \<^verbatim>\<open>None\<close>, or a frame of bars. The function
  returns the list \<^verbatim>\<open>trades\<close>; a trade still held in \<^verbatim>\<open>current_trade\<close> after the last
  row is not part of it.
\<close>

definition simulate ::
  "string \<Rightarrow> indicator_row dataframe \<Rightarrow> real \<Rightarrow> string \<Rightarrow> py_error + loop_state" where
  "simulate symb df position_size strategy =
     backtest_loop symb df position_size strategy [50..<length (rows df)] initial_state"

definition backtest_symbol ::
  "(string \<Rightarrow> py_error + bar dataframe option) \<Rightarrow> string \<Rightarrow> real \<Rightarrow> string \<Rightarrow>
   py_error + backtest_trade list" where
  "backtest_symbol get_historical_data symb position_size strategy =
     (case get_historical_data symb of
        Inl e \<Rightarrow> Inl e
      | Inr None \<Rightarrow> Inr []
      | Inr (Some df) \<Rightarrow>
          if length (rows df) < 50 then Inr []
          else
            (case simulate symb (calculate_all_indicators df) position_size strategy of
               Inl e \<Rightarrow> Inl e
             | Inr st \<Rightarrow> Inr (trades_l st)))"

text \<open>
  \<^verbatim>\<open>BacktestResult\<close>, without the fields \<^verbatim>\<open>annualized_return_percent\<close>,
  \<^verbatim>\<open>sortino_ratio\<close>, \<^verbatim>\<open>best_trade\<close>, \<^verbatim>\<open>worst_trade\<close> and \<^verbatim>\<open>performance_by_symbol\<close>.
\<close>

record backtest_result =
  start_date :: int
  end_date :: int
  symbols_tested :: "string list"
  initial_capital :: real
  trades :: "backtest_trade list"
  total_return_percent :: fl
  win_rate :: real
  average_return :: fl
  average_win :: fl
  average_loss :: fl
  max_drawdown_percent :: fl
  sharpe_ratio :: fl
  profit_factor :: fl
  total_trades :: nat
  winning_trades :: nat
  losing_trades :: nat

text \<open>The result that \<^verbatim>\<open>run_backtest\<close> creates first: the dataclass defaults.\<close>

definition new_result :: "int \<Rightarrow> int \<Rightarrow> string list \<Rightarrow> real \<Rightarrow> backtest_result" where
  "new_result start end syms capital =
     \<lparr> start_date = start, end_date = end, symbols_tested = syms, initial_capital = capital,
       trades = [], total_return_percent = Val 0, win_rate = 0, average_return = Val 0,
       average_win = Val 0, average_loss = Val 0, max_drawdown_percent = Val 0,
       sharpe_ratio = Val 0, profit_factor = Val 0,
       total_trades = 0, winning_trades = 0, losing_trades = 0 \<rparr>"

text \<open>
  \<^verbatim>\<open>sum\<close>, \<^verbatim>\<open>statistics.mean\<close> and \<^verbatim>\<open>statistics.stdev\<close> (the sample standard
  deviation) of a list of floats, by their defining formulas.
\<close>

definition fl_sum :: "fl list \<Rightarrow> fl" where
  "fl_sum xs = foldl fl_add (Val 0) xs"

definition py_mean :: "fl list \<Rightarrow> fl" where
  "py_mean xs = fl_div (fl_sum xs) (Val (real (length xs)))"

definition py_stdev :: "fl list \<Rightarrow> fl" where
  "py_stdev xs =
     (let m = py_mean xs
      in fl_sqrt (fl_div (fl_sum (map (\<lambda>x. fl_mul (fl_sub x m) (fl_sub x m)) xs))
                         (Val (real (length xs - 1)))))"

text \<open>
  The maximum drawdown of \<^verbatim>\<open>_calculate_metrics\<close>: the list \<^verbatim>\<open>cumulative\<close> of running
  sums, then the loop that tracks the peak and the largest drop below it.
\<close>

fun running_sum :: "fl \<Rightarrow> fl list \<Rightarrow> fl list" where
  "running_sum tot [] = []"
| "running_sum tot (r # rs) = fl_add tot r # running_sum (fl_add tot r) rs"

fun drawdown_loop :: "fl list \<Rightarrow> fl \<Rightarrow> fl \<Rightarrow> fl" where
  "drawdown_loop [] peak max_dd = max_dd"
| "drawdown_loop (v # vs) peak max_dd =
     (let peak' = (if fl_gt v peak then v else peak);
          dd = fl_sub peak' v
      in drawdown_loop vs peak' (if fl_gt dd max_dd then dd else max_dd))"

definition max_drawdown :: "fl list \<Rightarrow> fl" where
  "max_drawdown returns =
     (let cumulative = running_sum (Val 0) returns
      in drawdown_loop cumulative (hd cumulative) (Val 0))"

text \<open>\<^verbatim>\<open>_calculate_metrics\<close>, for the fields of \<^typ>\<open>backtest_result\<close>.\<close>

definition calculate_metrics :: "backtest_result \<Rightarrow> backtest_result" where
  "calculate_metrics result =
     (let ts = trades result in
      if ts = [] then result
      else
        let n_total = length ts;
            n_winning = length (filter is_profitable ts);
            returns = map return_percent ts;
            avg = py_mean returns;
            winning_returns = map return_percent (filter is_profitable ts);
            losing_returns = map return_percent (filter (\<lambda>t. \<not> is_profitable t) ts);
            gross_profit = fl_sum (map profit_loss (filter is_profitable ts));
            gross_loss = fl_abs (fl_sum (map profit_loss (filter (\<lambda>t. \<not> is_profitable t) ts)))
        in result
             \<lparr> total_trades := n_total,
               winning_trades := n_winning,
               losing_trades := n_total - n_winning,
               win_rate := (real n_winning / real n_total) * 100,
               average_return := avg,
               average_win := (if winning_returns \<noteq> [] then py_mean winning_returns else Val 0),
               average_loss := (if losing_returns \<noteq> [] then py_mean losing_returns else Val 0),
               total_return_percent := fl_sum returns,
               profit_factor :=
                 (if fl_gt gross_loss (Val 0) then fl_div gross_profit gross_loss else PInf),
               sharpe_ratio :=
                 (if length returns > 1 \<and> fl_gt (py_stdev returns) (Val 0)
                  then fl_mul (fl_div avg (py_stdev returns)) (Val (sqrt 252))
                  else sharpe_ratio result),
               max_drawdown_percent := max_drawdown returns \<rparr>)"

text \<open>
  \<^verbatim>\<open>run_backtest\<close>: the symbols one after the other, an exception of a symbol being
  caught and logged; without any trade the fresh result is returned as it is.
\<close>

definition symbol_trades ::
  "(string \<Rightarrow> py_error + bar dataframe option) \<Rightarrow> real \<Rightarrow> string \<Rightarrow> string \<Rightarrow>
   backtest_trade list" where
  "symbol_trades get_historical_data position_size strategy symb =
     (case backtest_symbol get_historical_data symb position_size strategy of
        Inl e \<Rightarrow> []
      | Inr ts \<Rightarrow> ts)"

definition run_backtest ::
  "(string \<Rightarrow> py_error + bar dataframe option) \<Rightarrow> string list \<Rightarrow> int \<Rightarrow> int \<Rightarrow> real \<Rightarrow> real \<Rightarrow>
   string \<Rightarrow> backtest_result" where
  "run_backtest get_historical_data symbols start end capital position_size_percent strategy =
     (let result = new_result start end symbols capital;
          all_trades =
            concat (map (symbol_trades get_historical_data
                           (capital * position_size_percent / 100) strategy) symbols)
      in if all_trades = [] then result
         else calculate_metrics (result \<lparr> trades := all_trades \<rparr>))"

text \<open>
  Sample data: daily bars without intraday range. Symbol \<open>UP\<close> stays at 100 for fifty
  days, jumps to 120 on day 50 and to 132 on day 51. Symbol \<open>DN\<close> stays at 100 for
  fifty-one days, trades at 120 on day 60 and at 108 on day 61. Any other symbol has no
  data.
\<close>

definition mk_bar :: "int \<Rightarrow> real \<Rightarrow> bar" where
  "mk_bar d c =
     \<lparr> stamp = 86400 * d, open_price = c, high = c, low = c, close = c, volume = 1000 \<rparr>"

definition up_bars :: "bar dataframe" where
  "up_bars =
     \<lparr> datetime_index = True, columns = [],
       rows = map (\<lambda>d. mk_bar (int d) 100) [0..<50] @ [mk_bar 50 120, mk_bar 51 132] \<rparr>"

definition dn_bars :: "bar dataframe" where
  "dn_bars =
     \<lparr> datetime_index = True, columns = [],
       rows = map (\<lambda>d. mk_bar (int d) 100) [0..<51] @ [mk_bar 60 120, mk_bar 61 108] \<rparr>"

definition sample_data :: "string \<Rightarrow> py_error + bar dataframe option" where
  "sample_data s =
     (if s = ''UP'' then Inr (Some up_bars)
      else if s = ''DN'' then Inr (Some dn_bars)
      else if s = ''ERR'' then Inl FetchError
      else Inr None)"

section \<open>The exit rule as a priority list\<close>

text \<open>
  The exit rule in the words of the specification: the four conditions in the order
  target, stop-loss, sell signal, timeout; only the first one that holds applies. Target
  and stop-loss set their flag; every condition closes the trade at the current row.
\<close>

datatype exit_condition = Target | StopLoss | SellSignal | Timeout

definition first_exit_condition ::
  "real \<Rightarrow> string \<Rightarrow> int \<Rightarrow> backtest_trade \<Rightarrow> exit_condition option" where
  "first_exit_condition price sig days t =
     (if fl_ge (Val price) (target_price t) then Some Target
      else if fl_le (Val price) (stop_loss t) then Some StopLoss
      else if sig = ''sell'' then Some SellSignal
      else if days > 30 then Some Timeout
      else None)"

definition exit_by_priority ::
  "indicator_row dataframe \<Rightarrow> nat \<Rightarrow> real \<Rightarrow> string \<Rightarrow> loop_state \<Rightarrow> backtest_trade \<Rightarrow> loop_state" where
  "exit_by_priority df i position_size sig st t =
     (case first_exit_condition (close (rows df ! i)) sig (holding_days df i t) t of
        None \<Rightarrow> st
      | Some c \<Rightarrow>
          st \<lparr> trades_l := trades_l st @
                  [close_trade df i position_size
                     (t \<lparr> hit_target := (c = Target), hit_stop_loss := (c = StopLoss) \<rparr>)],
               current_trade := None, in_position := False \<rparr>)"

text \<open>
  A closed trade: exit date and exit price are set, and return and profit are the ones
  computed from the exit price.
\<close>

definition is_closed :: "real \<Rightarrow> backtest_trade \<Rightarrow> bool" where
  "is_closed position_size t =
     (case (exit_date t, exit_price t) of
        (Some d, Some p) \<Rightarrow>
          return_percent t = fl_mul (fl_div (Val (p - entry_price t)) (Val (entry_price t))) (Val 100)
          \<and> profit_loss t = fl_div (fl_mul (Val position_size) (return_percent t)) (Val 100)
      | _ \<Rightarrow> False)"


text \<open>
  The invariant of the loop: while in a position, \<^verbatim>\<open>current_trade\<close> is a trade without
  exit fields and without flags; otherwise it is \<^verbatim>\<open>None\<close>; every trade of the list is
  closed and has at most one flag.
\<close>

definition open_ok :: "backtest_trade \<Rightarrow> bool" where
  "open_ok t = (exit_date t = None \<and> exit_price t = None \<and> \<not> hit_target t \<and> \<not> hit_stop_loss t)"

definition closed_ok :: "real \<Rightarrow> backtest_trade \<Rightarrow> bool" where
  "closed_ok ps t = (is_closed ps t \<and> \<not> (hit_target t \<and> hit_stop_loss t))"

definition loop_inv :: "real \<Rightarrow> loop_state \<Rightarrow> bool" where
  "loop_inv ps st =
     ((if in_position st then (\<exists>t. current_trade st = Some t \<and> open_ok t)
       else current_trade st = None)
      \<and> list_all (closed_ok ps) (trades_l st))"


text \<open>
  The trade of \<open>UP\<close> under the momentum strategy, as opened on day 50 and as closed on
  day 51, for a position of size \<open>ps\<close>; the trade of \<open>DN\<close>, opened on day 60 and
  closed on day 61.
\<close>

definition up_open :: backtest_trade where
  "up_open =
     \<lparr> symbol = ''UP'', entry_date = 4320000, entry_price = 120, exit_date = None,
       exit_price = None, action = ''buy'', target_price = Val (860 / 7),
       stop_loss = Val (825 / 7), return_percent = Val 0, profit_loss = Val 0,
       hit_target = False, hit_stop_loss = False, confidence_bt = 0.8, technical_score = 0.8 \<rparr>"

definition up_trade :: "real \<Rightarrow> backtest_trade" where
  "up_trade ps =
     up_open \<lparr> exit_date := Some 4406400, exit_price := Some 132,
               return_percent := Val 10, profit_loss := Val (ps / 10), hit_target := True \<rparr>"

definition dn_open :: backtest_trade where
  "dn_open =
     \<lparr> symbol = ''DN'', entry_date = 5184000, entry_price = 120, exit_date = None,
       exit_price = None, action = ''buy'', target_price = Val (860 / 7),
       stop_loss = Val (825 / 7), return_percent = Val 0, profit_loss = Val 0,
       hit_target = False, hit_stop_loss = False, confidence_bt = 0.8, technical_score = 0.8 \<rparr>"

definition dn_trade :: "real \<Rightarrow> backtest_trade" where
  "dn_trade ps =
     dn_open \<lparr> exit_date := Some 5270400, exit_price := Some 108,
               return_percent := Val (- 10), profit_loss := Val (- ps / 10),
               hit_stop_loss := True \<rparr>"

text \<open>
  The cumulative-return curve of a list of returns (its running sums), and the trades of
  a list in chronological order (by entry date).
\<close>

fun cumulative_returns :: "real \<Rightarrow> real list \<Rightarrow> real list" where
  "cumulative_returns tot [] = []"
| "cumulative_returns tot (r # rs) = (tot + r) # cumulative_returns (tot + r) rs"

definition chronological :: "backtest_trade list \<Rightarrow> backtest_trade list" where
  "chronological ts = sort_key entry_date ts"

text \<open>The drawdown loop on finite values.\<close>

fun drawdown_real :: "real list \<Rightarrow> real \<Rightarrow> real \<Rightarrow> real" where
  "drawdown_real [] peak max_dd = max_dd"
| "drawdown_real (v # vs) peak max_dd =
     drawdown_real vs (max peak v) (max max_dd (max peak v - v))"

text \<open>
  Chronology of the loop state, for a time \<open>b\<close> that bounds the rows seen so far: every
  trade of the list was entered before it was closed and closed by \<open>b\<close>; each trade of
  the list was closed before the next one was entered; the trade held in
  \<^verbatim>\<open>current_trade\<close> was entered by \<open>b\<close>, after every trade of the list was closed.
\<close>

definition closed_by :: "backtest_trade \<Rightarrow> int \<Rightarrow> bool" where
  "closed_by t b = (case exit_date t of Some d \<Rightarrow> entry_date t \<le> d \<and> d \<le> b | None \<Rightarrow> False)"

definition chron_inv :: "int \<Rightarrow> loop_state \<Rightarrow> bool" where
  "chron_inv b st =
     (sorted_wrt (\<lambda>t1 t2. closed_by t1 (entry_date t2)) (trades_l st)
      \<and> list_all (\<lambda>t. closed_by t b) (trades_l st)
      \<and> (case current_trade st of
            None \<Rightarrow> True
          | Some t \<Rightarrow> entry_date t \<le> b \<and> list_all (\<lambda>t'. closed_by t' (entry_date t)) (trades_l st)))"

section \<open>Properties of the signal analyzer\<close>

lemma calculate_confidence_formula:
  "sigs \<noteq> [] \<Longrightarrow>
   calculate_confidence sigs =
     min 0.95 (0.4 + 0.5 * (real (max (buy_count sigs) (sell_count sigs)) / real (length sigs)))"
  by (simp add: calculate_confidence_def Let_def buy_count_def sell_count_def)

lemma calculate_confidence_bounds:
  "0.4 \<le> calculate_confidence sigs \<and> calculate_confidence sigs \<le> 0.9"
proof (cases "sigs = []")
  case True
  then show ?thesis by (simp add: calculate_confidence_def)
next
  case False
  have pos: "0 < length sigs" using False by simp
  have "buy_count sigs \<le> length sigs" "sell_count sigs \<le> length sigs"
    by (simp_all add: buy_count_def sell_count_def)
  then have le: "max (buy_count sigs) (sell_count sigs) \<le> length sigs" by simp
  have r0: "0 \<le> real (max (buy_count sigs) (sell_count sigs)) / real (length sigs)" by simp
  have r1: "real (max (buy_count sigs) (sell_count sigs)) / real (length sigs) \<le> 1"
    using le pos by (simp add: divide_le_eq_1)
  show ?thesis unfolding calculate_confidence_formula[OF False] using r0 r1 by (simp add: min_def)
qed

lemma analyze_cases:
  "analyze n ts ms vs ws = \<lparr> signals = [], confidence = 0.5 \<rparr> \<or>
   analyze n ts ms vs ws =
     \<lparr> signals = ts @ ms @ vs @ ws, confidence = calculate_confidence (ts @ ms @ vs @ ws) \<rparr>"
  by (simp add: analyze_def Let_def)

text \<open>
  Claim C6. Whenever an analysis produced at least one signal, its confidence is
  \<open>min 0.95 (0.4 + 0.5 * (max buy_count sell_count / total))\<close>; with no signal it is
  0.5; in every case it lies between 0.1 and 0.95. (The proof shows the narrower range
  0.4 to 0.9: the agreement ratio is at most 1, so the cap at 0.95 is never reached.)
\<close>

theorem analyze_confidence:
  assumes r_def: "r = analyze n ts ms vs ws"
  shows "(signals r \<noteq> [] \<longrightarrow>
           confidence r =
             min 0.95 (0.4 + 0.5 *
               (real (max (buy_count (signals r)) (sell_count (signals r)))
                / real (length (signals r)))))
       \<and> (signals r = [] \<longrightarrow> confidence r = 0.5)
       \<and> 0.1 \<le> confidence r \<and> confidence r \<le> 0.95"
proof -
  let ?all = "ts @ ms @ vs @ ws"
  from analyze_cases[of n ts ms vs ws]
  show ?thesis
  proof
    assume "analyze n ts ms vs ws = \<lparr> signals = [], confidence = 0.5 \<rparr>"
    then show ?thesis by (simp add: r_def)
  next
    assume a: "analyze n ts ms vs ws =
      \<lparr> signals = ?all, confidence = calculate_confidence ?all \<rparr>"
    have s: "signals r = ?all" and c: "confidence r = calculate_confidence ?all"
      by (simp_all add: r_def a)
    have e: "?all = [] \<longrightarrow> calculate_confidence ?all = 0.5"
      by (simp add: calculate_confidence_def)
    have f: "?all \<noteq> [] \<longrightarrow> calculate_confidence ?all =
       min 0.95 (0.4 + 0.5 * (real (max (buy_count ?all) (sell_count ?all)) / real (length ?all)))"
      using calculate_confidence_formula[of ?all] by blast
    have b: "0.1 \<le> calculate_confidence ?all \<and> calculate_confidence ?all \<le> 0.95"
      using calculate_confidence_bounds[of ?all] by simp
    show ?thesis unfolding s c using e f b by blast
  qed
qed

text \<open>
  The theorem at an analysis of 20 rows whose only signal is a strong buy: all signals
  agree, and the confidence is 0.9.
\<close>

theorem analyze_confidence_witness:
  "confidence (analyze 20 [\<lparr>indicator = ''RSI'', sig_value = Val 25, signal = STRONG_BUY,
      strength = 0.85, description = ''RSI oversold''\<rparr>] [] [] []) = 0.9"
  using analyze_confidence[OF refl, of 20 "[\<lparr>indicator = ''RSI'', sig_value = Val 25, signal = STRONG_BUY,
      strength = 0.85, description = ''RSI oversold''\<rparr>]" "[]" "[]" "[]"]
  by (simp add: analyze_def Let_def buy_count_def sell_count_def)

section \<open>Properties of the indicator library\<close>

lemma length_rolling: "length (rolling n f xs) = length xs"
  by (simp add: rolling_def)

lemma rolling_nth:
  "i < length xs \<Longrightarrow>
   rolling n f xs ! i = (if n = 0 \<or> Suc i < n then NaN else f (take n (drop (Suc i - n) xs)))"
  by (simp add: rolling_def)

lemma length_diff: "length (diff xs) = length xs"
  by (cases xs) simp_all

lemma length_shift: "length (shift xs) = length xs"
  by (cases xs) simp_all

lemma rolling_mean_isna:
  "i < length xs \<Longrightarrow> 0 < n \<Longrightarrow> isna (rolling n w_mean xs ! i) = (Suc i < n)"
  by (simp add: rolling_nth w_mean_def isna_def)

lemma rolling_mean_val:
  "i < length xs \<Longrightarrow> 0 < n \<Longrightarrow> n \<le> Suc i \<Longrightarrow>
   rolling n w_mean xs ! i = Val (sum_list (take n (drop (Suc i - n) xs)) / real n)"
  by (simp add: rolling_nth w_mean_def)

lemma gain_of_nonneg: "0 \<le> gain_of d"
  by (simp add: gain_of_def split: option.splits)

lemma loss_of_nonneg: "0 \<le> loss_of d"
  by (simp add: loss_of_def split: option.splits)

lemma sum_list_window_nonneg:
  "(\<And>x. x \<in> set xs \<Longrightarrow> (0::real) \<le> x) \<Longrightarrow> 0 \<le> sum_list (take n (drop k xs))"
  by (rule sum_list_nonneg) (auto dest!: in_set_takeD in_set_dropD)

lemma length_rsi_gain: "length (rsi_gain cs n) = length cs"
  by (simp add: rsi_gain_def length_rolling length_diff)

lemma length_rsi_loss: "length (rsi_loss cs n) = length cs"
  by (simp add: rsi_loss_def length_rolling length_diff)

lemma rsi_gain_cases:
  assumes "i < length cs" "0 < n"
  shows "(Suc i < n \<and> rsi_gain cs n ! i = NaN) \<or>
         (n \<le> Suc i \<and> (\<exists>g. 0 \<le> g \<and> rsi_gain cs n ! i = Val g))"
proof (cases "Suc i < n")
  case True
  then show ?thesis using assms by (simp add: rsi_gain_def rolling_nth length_diff)
next
  case False
  let ?w = "take n (drop (Suc i - n) (map gain_of (diff cs)))"
  have "0 \<le> sum_list ?w"
    by (rule sum_list_window_nonneg) (auto simp: gain_of_nonneg)
  then have "0 \<le> sum_list ?w / real n" by simp
  moreover have "rsi_gain cs n ! i = Val (sum_list ?w / real n)"
    using assms False by (simp add: rsi_gain_def rolling_mean_val length_diff)
  ultimately show ?thesis using False by auto
qed

lemma rsi_loss_cases:
  assumes "i < length cs" "0 < n"
  shows "(Suc i < n \<and> rsi_loss cs n ! i = NaN) \<or>
         (n \<le> Suc i \<and> (\<exists>l. 0 \<le> l \<and> rsi_loss cs n ! i = Val l))"
proof (cases "Suc i < n")
  case True
  then show ?thesis using assms by (simp add: rsi_loss_def rolling_nth length_diff)
next
  case False
  let ?w = "take n (drop (Suc i - n) (map loss_of (diff cs)))"
  have "0 \<le> sum_list ?w"
    by (rule sum_list_window_nonneg) (auto simp: loss_of_nonneg)
  then have "0 \<le> sum_list ?w / real n" by simp
  moreover have "rsi_loss cs n ! i = Val (sum_list ?w / real n)"
    using assms False by (simp add: rsi_loss_def rolling_mean_val length_diff)
  ultimately show ?thesis using False by auto
qed

lemma length_calculate_rsi: "length (calculate_rsi cs n) = length cs"
  by (simp add: calculate_rsi_def length_rsi_gain length_rsi_loss)

lemma calculate_rsi_nth:
  "i < length cs \<Longrightarrow>
   calculate_rsi cs n ! i = rsi_of_rs (fl_div (rsi_gain cs n ! i) (rsi_loss cs n ! i))"
  by (simp add: calculate_rsi_def length_rsi_gain length_rsi_loss)

text \<open>The value of the RSI formula on non-negative averages.\<close>

lemma rsi_of_rs_vals:
  assumes "0 \<le> g" "0 \<le> l"
  shows "rsi_of_rs (fl_div (Val g) (Val l)) =
    (if l = 0 then (if g = 0 then NaN else Val 100) else Val (100 - 100 / (1 + g / l)))"
proof -
  have "l \<noteq> 0 \<Longrightarrow> 1 + g / l \<noteq> 0"
  proof -
    assume "l \<noteq> 0"
    then have "0 \<le> g / l" using assms by simp
    then show ?thesis by linarith
  qed
  then show ?thesis using assms by (auto simp: rsi_of_rs_def fl_sub_def)
qed

lemma rsi_formula_range:
  assumes "0 \<le> g" "0 < l"
  shows "0 \<le> 100 - 100 / (1 + g / l) \<and> 100 - 100 / (1 + g / l) \<le> (100::real)"
proof -
  have a: "1 \<le> 1 + g / l" using assms by simp
  then have "100 / (1 + g / l) \<le> 100" by (simp add: divide_le_eq)
  moreover have "0 \<le> 100 / (1 + g / l)" using a by simp
  ultimately show ?thesis by simp
qed

text \<open>
  Claim C4, as amended. For RSI(14), at every position: where the trailing average loss
  is exactly 0 and the trailing average gain is not 0, the RSI is 100; where both
  averages are 0 (no price change in the window), the RSI is NaN, the result of the
  floating-point division 0/0 (no exception is raised, and no guard replaces
  the value); every RSI value that is a number lies between 0 and 100, and the RSI is
  never infinite.
\<close>

theorem rsi_zero_loss_and_range:
  assumes "i < length cs"
  shows "(rsi_loss cs 14 ! i = Val 0 \<and> rsi_gain cs 14 ! i \<noteq> Val 0 \<longrightarrow>
            calculate_rsi cs 14 ! i = Val 100)
       \<and> (rsi_loss cs 14 ! i = Val 0 \<and> rsi_gain cs 14 ! i = Val 0 \<longrightarrow>
            calculate_rsi cs 14 ! i = NaN)
       \<and> (\<forall>v. calculate_rsi cs 14 ! i = Val v \<longrightarrow> 0 \<le> v \<and> v \<le> 100)
       \<and> calculate_rsi cs 14 ! i \<noteq> PInf \<and> calculate_rsi cs 14 ! i \<noteq> NInf"
proof -
  from rsi_gain_cases[OF assms, of 14] rsi_loss_cases[OF assms, of 14]
  consider (early) "rsi_gain cs 14 ! i = NaN" "rsi_loss cs 14 ! i = NaN"
    | (late) g l where "0 \<le> g" "0 \<le> l" "rsi_gain cs 14 ! i = Val g" "rsi_loss cs 14 ! i = Val l"
    by auto
  then show ?thesis
  proof cases
    case early
    then have "calculate_rsi cs 14 ! i = NaN"
      using assms by (simp add: calculate_rsi_nth rsi_of_rs_def fl_sub_def)
    with early show ?thesis by simp
  next
    case late
    have v: "calculate_rsi cs 14 ! i =
       (if l = 0 then (if g = 0 then NaN else Val 100) else Val (100 - 100 / (1 + g / l)))"
      unfolding calculate_rsi_nth[OF assms] late(3,4) by (rule rsi_of_rs_vals[OF late(1,2)])
    show ?thesis
    proof (cases "l = 0")
      case True
      then show ?thesis using v late by auto
    next
      case False
      then have "0 < l" using late by simp
      from rsi_formula_range[OF late(1) this] show ?thesis using v late False by auto
    qed
  qed
qed

text \<open>
  The theorem on fifteen strictly rising closes (average loss 0, RSI 100 at position 13)
  and on fifteen equal closes (both averages 0, RSI undefined at position 14).
\<close>

theorem rsi_zero_loss_and_range_witness:
  "calculate_rsi [1,2,3,4,5,6,7,8,9,10,11,12,13,14,15] 14 ! 13 = Val 100
   \<and> calculate_rsi (replicate 15 1) 14 ! 14 = NaN"
proof -
  have a: "rsi_loss [1,2,3,4,5,6,7,8,9,10,11,12,13,14,15] 14 ! 13 = Val 0" by code_simp
  have b: "rsi_gain [1,2,3,4,5,6,7,8,9,10,11,12,13,14,15] 14 ! 13 \<noteq> Val 0" by code_simp
  have c: "rsi_loss (replicate 15 1) 14 ! 14 = Val 0" by code_simp
  have d: "rsi_gain (replicate 15 1) 14 ! 14 = Val 0" by code_simp
  have "calculate_rsi [1,2,3,4,5,6,7,8,9,10,11,12,13,14,15] 14 ! 13 = Val 100"
    using rsi_zero_loss_and_range[of 13 "[1,2,3,4,5,6,7,8,9,10,11,12,13,14,15]"] a b by simp
  moreover have "calculate_rsi (replicate 15 1) 14 ! 14 = NaN"
    using rsi_zero_loss_and_range[of 14 "replicate 15 1"] c d by simp
  ultimately show ?thesis by simp
qed

text \<open>
  Claim C4 as stated fails on fifteen equal closes: at position 13 the trailing average
  loss is exactly 0, and the RSI is not 100 (it is NaN).
\<close>

theorem rsi_zero_loss_counterexample:
  "rsi_loss (replicate 15 1) 14 ! 13 = Val 0 \<and> calculate_rsi (replicate 15 1) 14 ! 13 \<noteq> Val 100"
  by code_simp

lemma sma_shape:
  "0 < n \<Longrightarrow> i < length cs \<Longrightarrow> isna (calculate_sma cs n ! i) = (Suc i < n)"
  by (simp add: calculate_sma_def rolling_mean_isna)

lemma rolling_std_cases:
  assumes "i < length xs" "2 \<le> n"
  shows "(Suc i < n \<and> rolling n w_std xs ! i = NaN) \<or>
         (n \<le> Suc i \<and> (\<exists>s. rolling n w_std xs ! i = Val s))"
  using assms by (auto simp: rolling_nth w_std_def Let_def)

lemma rolling_mean_cases:
  assumes "i < length xs" "0 < n"
  shows "(Suc i < n \<and> rolling n w_mean xs ! i = NaN) \<or>
         (n \<le> Suc i \<and> (\<exists>m. rolling n w_mean xs ! i = Val m))"
  using assms by (auto simp: rolling_nth w_mean_def)

lemma bollinger_lengths:
  "length (upper (calculate_bollinger_bands cs n k)) = length cs \<and>
   length (middle (calculate_bollinger_bands cs n k)) = length cs \<and>
   length (lower (calculate_bollinger_bands cs n k)) = length cs"
  by (simp add: calculate_bollinger_bands_def Let_def length_rolling)

lemma bollinger_shape:
  assumes "i < length cs" "2 \<le> n"
  shows "isna (upper (calculate_bollinger_bands cs n k) ! i) = (Suc i < n) \<and>
         isna (middle (calculate_bollinger_bands cs n k) ! i) = (Suc i < n) \<and>
         isna (lower (calculate_bollinger_bands cs n k) ! i) = (Suc i < n)"
proof -
  have n0: "0 < n" using assms by simp
  from rolling_mean_cases[OF assms(1) n0] rolling_std_cases[OF assms]
  show ?thesis using assms(1)
    by (auto simp: calculate_bollinger_bands_def Let_def length_rolling isna_def fl_sub_def)
qed

lemma length_true_range:
  "length hs = length cs \<Longrightarrow> length ls = length cs \<Longrightarrow> length (true_range hs ls cs) = length cs"
  by (simp add: true_range_def length_shift)

lemma atr_shape:
  "length hs = length cs \<Longrightarrow> length ls = length cs \<Longrightarrow> i < length cs \<Longrightarrow>
   isna (calculate_atr hs ls cs 14 ! i) = (i < 13)"
  by (auto simp: calculate_atr_def rolling_mean_isna length_true_range)

lemma length_calculate_atr:
  "length hs = length cs \<Longrightarrow> length ls = length cs \<Longrightarrow>
   length (calculate_atr hs ls cs n) = length cs"
  by (simp add: calculate_atr_def length_rolling length_true_range)

lemma w_min_Val: "w \<noteq> [] \<Longrightarrow> \<exists>a. w_min w = Val a"
  by (cases w) simp_all

lemma w_max_Val: "w \<noteq> [] \<Longrightarrow> \<exists>a. w_max w = Val a"
  by (cases w) simp_all

lemma rolling_min_cases:
  assumes "i < length xs" "0 < n"
  shows "(Suc i < n \<and> rolling n w_min xs ! i = NaN) \<or>
         (n \<le> Suc i \<and> (\<exists>a. rolling n w_min xs ! i = Val a))"
proof (cases "Suc i < n")
  case True
  then show ?thesis using assms by (simp add: rolling_nth)
next
  case False
  have "take n (drop (Suc i - n) xs) \<noteq> []" using assms False by auto
  from w_min_Val[OF this] show ?thesis using assms False by (auto simp: rolling_nth)
qed

lemma rolling_max_cases:
  assumes "i < length xs" "0 < n"
  shows "(Suc i < n \<and> rolling n w_max xs ! i = NaN) \<or>
         (n \<le> Suc i \<and> (\<exists>a. rolling n w_max xs ! i = Val a))"
proof (cases "Suc i < n")
  case True
  then show ?thesis using assms by (simp add: rolling_nth)
next
  case False
  have "take n (drop (Suc i - n) xs) \<noteq> []" using assms False by auto
  from w_max_Val[OF this] show ?thesis using assms False by (auto simp: rolling_nth)
qed

lemma length_stochastic_k:
  "length hs = length cs \<Longrightarrow> length ls = length cs \<Longrightarrow>
   length (calculate_stochastic_k hs ls cs n) = length cs"
  by (simp add: calculate_stochastic_k_def lowest_low_def highest_high_def length_rolling)

lemma stochastic_k_nth:
  "length hs = length cs \<Longrightarrow> length ls = length cs \<Longrightarrow> i < length cs \<Longrightarrow>
   calculate_stochastic_k hs ls cs n ! i =
     stoch_k_of (cs ! i) (lowest_low ls n ! i) (highest_high hs n ! i)"
  by (simp add: calculate_stochastic_k_def lowest_low_def highest_high_def length_rolling)

lemma stoch_k_of_isna:
  "isna (stoch_k_of c (Val a) (Val b)) = (b = a \<and> c = a)"
  by (auto simp: stoch_k_of_def fl_sub_def isna_def)

lemma stochastic_k_shape:
  assumes "length hs = length cs" "length ls = length cs" "i < length cs"
  shows "isna (calculate_stochastic_k hs ls cs 14 ! i) =
         (i < 13 \<or> (highest_high hs 14 ! i = lowest_low ls 14 ! i \<and>
                     lowest_low ls 14 ! i = Val (cs ! i)))"
proof -
  have il: "i < length ls" and ih: "i < length hs" using assms by simp_all
  from rolling_min_cases[OF il, of 14] rolling_max_cases[OF ih, of 14]
  consider (early) "i < 13" "lowest_low ls 14 ! i = NaN"
    | (late) a b where "13 \<le> i" "lowest_low ls 14 ! i = Val a" "highest_high hs 14 ! i = Val b"
    by (auto simp: lowest_low_def highest_high_def)
  then show ?thesis
  proof cases
    case early
    then show ?thesis
      unfolding stochastic_k_nth[OF assms] by (simp add: stoch_k_of_def fl_sub_def isna_def)
  next
    case late
    show ?thesis
      unfolding stochastic_k_nth[OF assms] late(2,3) stoch_k_of_isna using late(1) by auto
  qed
qed

lemma rsi_shape:
  assumes "i < length cs"
  shows "isna (calculate_rsi cs 14 ! i) =
         (i < 13 \<or> (rsi_gain cs 14 ! i = Val 0 \<and> rsi_loss cs 14 ! i = Val 0))"
proof -
  from rsi_gain_cases[OF assms, of 14] rsi_loss_cases[OF assms, of 14]
  consider (early) "i < 13" "rsi_gain cs 14 ! i = NaN"
    | (late) g l where "13 \<le> i" "0 \<le> g" "0 \<le> l"
        "rsi_gain cs 14 ! i = Val g" "rsi_loss cs 14 ! i = Val l"
    by auto
  then show ?thesis
  proof cases
    case early
    then show ?thesis
      unfolding calculate_rsi_nth[OF assms] by (simp add: rsi_of_rs_def fl_sub_def isna_def)
  next
    case late
    show ?thesis
      unfolding calculate_rsi_nth[OF assms] late(4,5) rsi_of_rs_vals[OF late(2,3)]
      using late(1) by (auto simp: isna_def)
  qed
qed

text \<open>
  Claim C3, as amended. For the columns of any sequence of bars, the series SMA(n),
  RSI(14), the three Bollinger bands (20), ATR(14) and Stochastic \<open>%K\<close>(14) have the
  length of the input, and every position before \<open>window - 1\<close> holds NaN. From position
  \<open>window - 1\<close> on, SMA, the Bollinger bands and ATR are always defined; the RSI is
  undefined exactly where the trailing average gain and the trailing average loss are
  both 0; \<open>%K\<close> is undefined exactly where the highest high and the lowest low of the
  window coincide and equal the close.
\<close>

theorem indicator_series_shape:
  assumes cols: "cs = map close bars" "hs = map high bars" "ls = map low bars"
    and n: "0 < n" and i: "i < length bars"
  shows "length (calculate_sma cs n) = length bars
       \<and> length (calculate_rsi cs 14) = length bars
       \<and> length (upper (calculate_bollinger_bands cs 20 2)) = length bars
       \<and> length (middle (calculate_bollinger_bands cs 20 2)) = length bars
       \<and> length (lower (calculate_bollinger_bands cs 20 2)) = length bars
       \<and> length (calculate_atr hs ls cs 14) = length bars
       \<and> length (calculate_stochastic_k hs ls cs 14) = length bars
       \<and> isna (calculate_sma cs n ! i) = (i + 1 < n)
       \<and> isna (upper (calculate_bollinger_bands cs 20 2) ! i) = (i < 19)
       \<and> isna (middle (calculate_bollinger_bands cs 20 2) ! i) = (i < 19)
       \<and> isna (lower (calculate_bollinger_bands cs 20 2) ! i) = (i < 19)
       \<and> isna (calculate_atr hs ls cs 14 ! i) = (i < 13)
       \<and> isna (calculate_rsi cs 14 ! i) =
           (i < 13 \<or> (rsi_gain cs 14 ! i = Val 0 \<and> rsi_loss cs 14 ! i = Val 0))
       \<and> isna (calculate_stochastic_k hs ls cs 14 ! i) =
           (i < 13 \<or> (highest_high hs 14 ! i = lowest_low ls 14 ! i \<and>
                       lowest_low ls 14 ! i = Val (cs ! i)))"
proof -
  have lc: "length cs = length bars" and lh: "length hs = length cs" and ll: "length ls = length cs"
    by (simp_all add: cols)
  have ic: "i < length cs" using i lc by simp
  have l1: "length (calculate_sma cs n) = length bars"
    by (simp add: calculate_sma_def length_rolling lc)
  have l2: "length (calculate_rsi cs 14) = length bars"
    by (simp add: length_calculate_rsi lc)
  have l3: "length (upper (calculate_bollinger_bands cs 20 2)) = length bars
       \<and> length (middle (calculate_bollinger_bands cs 20 2)) = length bars
       \<and> length (lower (calculate_bollinger_bands cs 20 2)) = length bars"
    using bollinger_lengths[of cs 20 2] lc by simp
  have l4: "length (calculate_atr hs ls cs 14) = length bars"
    using length_calculate_atr[OF lh ll] lc by simp
  have l5: "length (calculate_stochastic_k hs ls cs 14) = length bars"
    using length_stochastic_k[OF lh ll] lc by simp
  have s1: "isna (calculate_sma cs n ! i) = (i + 1 < n)"
    using sma_shape[OF n ic] by simp
  have s2: "isna (upper (calculate_bollinger_bands cs 20 2) ! i) = (i < 19)
       \<and> isna (middle (calculate_bollinger_bands cs 20 2) ! i) = (i < 19)
       \<and> isna (lower (calculate_bollinger_bands cs 20 2) ! i) = (i < 19)"
    using bollinger_shape[OF ic, of 20 2] by simp
  have s3: "isna (calculate_atr hs ls cs 14 ! i) = (i < 13)"
    by (rule atr_shape[OF lh ll ic])
  note s4 = rsi_shape[OF ic]
  note s5 = stochastic_k_shape[OF lh ll ic]
  show ?thesis using l1 l2 l3 l4 l5 s1 s2 s3 s4 s5 by blast
qed

lemma rising_cols:
  "map close rising_bars = [1, 2, 3, 4, 5, 6, 7, 8, 9, 10, 11, 12, 13, 14, 15, 16, 17, 18, 19, 20]"
  "length rising_bars = 20"
  by (simp_all add: rising_bars_def)

lemma rising_hl:
  "map high rising_bars = [2, 3, 4, 5, 6, 7, 8, 9, 10, 11, 12, 13, 14, 15, 16, 17, 18, 19, 20, 21]"
  "map low rising_bars = [0, 1, 2, 3, 4, 5, 6, 7, 8, 9, 10, 11, 12, 13, 14, 15, 16, 17, 18, 19]"
  by (simp_all add: rising_bars_def)

text \<open>The theorem at the last of twenty rising bars, where all five indicators are defined.\<close>

theorem indicator_series_shape_witness:
  "length (calculate_sma (map close rising_bars) 5) = 20
   \<and> \<not> isna (calculate_sma (map close rising_bars) 5 ! 19)
   \<and> \<not> isna (lower (calculate_bollinger_bands (map close rising_bars) 20 2) ! 19)
   \<and> \<not> isna (calculate_atr (map high rising_bars) (map low rising_bars) (map close rising_bars) 14 ! 19)
   \<and> \<not> isna (calculate_rsi (map close rising_bars) 14 ! 19)
   \<and> \<not> isna (calculate_stochastic_k (map high rising_bars) (map low rising_bars)
          (map close rising_bars) 14 ! 19)"
proof -
  have g: "rsi_gain (map close rising_bars) 14 ! 19 \<noteq> Val 0"
    unfolding rising_cols by code_simp
  have h: "highest_high (map high rising_bars) 14 ! 19 \<noteq> lowest_low (map low rising_bars) 14 ! 19"
    unfolding rising_hl by code_simp
  show ?thesis
    using indicator_series_shape[OF refl refl refl, of 5 19 rising_bars] g h
    by (simp add: rising_cols(2))
qed

lemma flat_cols:
  "map close flat_bars = replicate 15 1" "map high flat_bars = replicate 15 1"
  "map low flat_bars = replicate 15 1" "length flat_bars = 15"
  by (simp_all add: flat_bars_def)

text \<open>
  Claim C3 as stated fails on fifteen bars without any price change: position 14 is past
  the warm-up window of 14, and both the RSI and \<open>%K\<close> are undefined there.
\<close>

theorem indicator_defined_counterexample:
  "length flat_bars = 15
   \<and> isna (calculate_rsi (map close flat_bars) 14 ! 14)
   \<and> isna (calculate_stochastic_k (map high flat_bars) (map low flat_bars) (map close flat_bars) 14 ! 14)"
  unfolding flat_cols by code_simp

section \<open>Support and resistance levels\<close>

lemma sorted_wrt_take_drop:
  assumes "sorted_wrt P ys" "y \<in> set (take k ys)" "x \<in> set (drop k ys)"
  shows "P y x"
proof -
  have "sorted_wrt P (take k ys @ drop k ys)" using assms(1) by simp
  then show ?thesis using assms(2,3) unfolding sorted_wrt_append by blast
qed

lemma mset_take_drop: "mset ys - mset (take k ys) = mset (drop k ys)"
proof -
  have "mset ys = mset (take k ys) + mset (drop k ys)"
    by (metis append_take_drop_id mset_append)
  then show ?thesis by simp
qed

lemma mset_take_subset: "mset (take k ys) \<subseteq># mset ys"
  by (metis append_take_drop_id mset_append mset_subset_eq_add_left)

lemma sorted_wrt_ge_rev_sort: "sorted_wrt (\<lambda>a b. b \<le> a) (rev (sort (xs::real list)))"
proof -
  have "sorted (sort xs)" by simp
  then have "sorted_wrt (\<le>) (sort xs)" by simp
  then show ?thesis by (simp add: sorted_wrt_rev)
qed

text \<open>The \<open>k\<close> first of a list sorted ascending: a sub-multiset, nothing left out is smaller.\<close>

lemma take_sort_closest:
  fixes xs :: "real list"
  shows "sorted (take k (sort xs))"
    and "length (take k (sort xs)) = min k (length xs)"
    and "mset (take k (sort xs)) \<subseteq># mset xs"
    and "x \<in># mset xs - mset (take k (sort xs)) \<Longrightarrow> y \<in> set (take k (sort xs)) \<Longrightarrow> y \<le> x"
proof -
  show "sorted (take k (sort xs))" by (simp add: sorted_wrt_take)
  show "length (take k (sort xs)) = min k (length xs)" by (simp add: min.commute)
  show "mset (take k (sort xs)) \<subseteq># mset xs"
    using mset_take_subset[of k "sort xs"] by simp
  assume a: "x \<in># mset xs - mset (take k (sort xs))" and b: "y \<in> set (take k (sort xs))"
  have "mset xs - mset (take k (sort xs)) = mset (drop k (sort xs))"
    using mset_take_drop[of "sort xs" k] by simp
  then have "x \<in> set (drop k (sort xs))" using a by simp
  moreover have "sorted_wrt (\<le>) (sort xs)" by simp
  ultimately show "y \<le> x" using b by (rule sorted_wrt_take_drop[rotated 2])
qed

lemma take_rev_sort_closest:
  fixes xs :: "real list"
  shows "sorted (rev (take k (rev (sort xs))))"
    and "length (take k (rev (sort xs))) = min k (length xs)"
    and "mset (take k (rev (sort xs))) \<subseteq># mset xs"
    and "x \<in># mset xs - mset (take k (rev (sort xs))) \<Longrightarrow> y \<in> set (take k (rev (sort xs))) \<Longrightarrow> x \<le> y"
proof -
  have s: "sorted_wrt (\<lambda>a b. b \<le> a) (rev (sort xs))" by (rule sorted_wrt_ge_rev_sort)
  then have "sorted_wrt (\<lambda>a b. b \<le> a) (take k (rev (sort xs)))" by (rule sorted_wrt_take)
  then show "sorted (rev (take k (rev (sort xs))))" by (simp add: sorted_wrt_rev)
  show "length (take k (rev (sort xs))) = min k (length xs)" by (simp add: min.commute)
  show "mset (take k (rev (sort xs))) \<subseteq># mset xs"
    using mset_take_subset[of k "rev (sort xs)"] by simp
  assume a: "x \<in># mset xs - mset (take k (rev (sort xs)))" and b: "y \<in> set (take k (rev (sort xs)))"
  have "mset xs - mset (take k (rev (sort xs))) = mset (drop k (rev (sort xs)))"
    using mset_take_drop[of "rev (sort xs)" k] by simp
  then have "x \<in> set (drop k (rev (sort xs)))" using a by simp
  then show "x \<le> y" using sorted_wrt_take_drop[OF s b] by simp
qed

lemma find_support_resistance_eq:
  "df \<noteq> [] \<Longrightarrow>
   find_support_resistance df n =
     Inr (take n (rev (sort (support_candidates df n))),
          take n (sort (resistance_candidates df n)))"
  by (simp add: find_support_resistance_def Let_def support_candidates_def resistance_candidates_def)

lemma nsmallest_extreme:
  fixes xs :: "real list"
  shows "mset (nsmallest k xs) \<subseteq># mset xs \<and> length (nsmallest k xs) = min k (length xs)
    \<and> (\<forall>x y. x \<in># mset xs - mset (nsmallest k xs) \<and> y \<in> set (nsmallest k xs) \<longrightarrow> y \<le> x)"
  unfolding nsmallest_def using take_sort_closest(2,3,4)[where k=k and xs=xs] by blast

lemma nlargest_extreme:
  fixes xs :: "real list"
  shows "mset (nlargest k xs) \<subseteq># mset xs \<and> length (nlargest k xs) = min k (length xs)
    \<and> (\<forall>x y. x \<in># mset xs - mset (nlargest k xs) \<and> y \<in> set (nlargest k xs) \<longrightarrow> x \<le> y)"
  unfolding nlargest_def using take_rev_sort_closest(2,3,4)[where k=k and xs=xs] by blast

text \<open>
  Claim C5, as amended. On a non-empty frame, the support levels are the up-to-N closest
  (largest) of the candidate lows, the candidates being those of the \<open>2 * N\<close> smallest lows
  of the trailing 50 bars that lie below the current price; the resistance levels are the
  up-to-N closest (smallest) of the candidate highs, the candidates being those of the
  \<open>2 * N\<close> largest highs of the trailing 50 bars that lie above the current price. The
  resistance list is sorted ascending; the support list is sorted descending, closest
  level first.
\<close>

theorem find_support_resistance_levels:
  assumes "df \<noteq> []"
  shows "\<exists>support resistance.
      find_support_resistance df n = Inr (support, resistance)
    \<and> sorted (rev support) \<and> sorted resistance
    \<and> length support = min n (length (support_candidates df n))
    \<and> length resistance = min n (length (resistance_candidates df n))
    \<and> mset support \<subseteq># mset (support_candidates df n)
    \<and> mset resistance \<subseteq># mset (resistance_candidates df n)
    \<and> (\<forall>x y. x \<in># mset (support_candidates df n) - mset support \<and> y \<in> set support
          \<longrightarrow> x \<le> y)
    \<and> (\<forall>x y. x \<in># mset (resistance_candidates df n) - mset resistance \<and> y \<in> set resistance
          \<longrightarrow> y \<le> x)
    \<and> (\<forall>s \<in> set support. s < close (last df))
    \<and> (\<forall>r \<in> set resistance. close (last df) < r)"
proof -
  let ?sc = "support_candidates df n" and ?rc = "resistance_candidates df n"
  let ?s = "take n (rev (sort ?sc))" and ?r = "take n (sort ?rc)"
  have e: "find_support_resistance df n = Inr (?s, ?r)"
    by (rule find_support_resistance_eq[OF assms])
  have s1: "sorted (rev ?s)" by (rule take_rev_sort_closest(1))
  have r1: "sorted ?r" by (rule take_sort_closest(1))
  have s2: "length ?s = min n (length ?sc)" by (rule take_rev_sort_closest(2))
  have r2: "length ?r = min n (length ?rc)" by (rule take_sort_closest(2))
  have s3: "mset ?s \<subseteq># mset ?sc" by (rule take_rev_sort_closest(3))
  have r3: "mset ?r \<subseteq># mset ?rc" by (rule take_sort_closest(3))
  have s4: "\<forall>x y. x \<in># mset ?sc - mset ?s \<and> y \<in> set ?s \<longrightarrow> x \<le> y"
    using take_rev_sort_closest(4)[where xs="?sc" and k=n] by blast
  have r4: "\<forall>x y. x \<in># mset ?rc - mset ?r \<and> y \<in> set ?r \<longrightarrow> y \<le> x"
    using take_sort_closest(4)[where xs="?rc" and k=n] by blast
  have "set ?s \<subseteq> set ?sc" using set_mset_mono[OF s3] by simp
  then have s5: "\<forall>s \<in> set ?s. s < close (last df)"
    by (auto simp: support_candidates_def)
  have "set ?r \<subseteq> set ?rc" using set_mset_mono[OF r3] by simp
  then have r5: "\<forall>r \<in> set ?r. close (last df) < r"
    by (auto simp: resistance_candidates_def)
  show ?thesis using e s1 r1 s2 r2 s3 r3 s4 r4 s5 r5 by blast
qed

lemma level_bars_eval:
  "find_support_resistance level_bars 3 = Inr ([6, 5, 4], [13, 14, 15])"
  by code_simp

text \<open>The theorem on eight bars with highs 11 to 18, lows 1 to 8 and current price 10.\<close>

theorem find_support_resistance_levels_witness:
  "\<exists>support resistance.
      find_support_resistance level_bars 3 = Inr (support, resistance)
    \<and> support = [6, 5, 4] \<and> resistance = [13, 14, 15]
    \<and> sorted (rev support) \<and> sorted resistance"
proof -
  have ne: "level_bars \<noteq> []" by (simp add: level_bars_def)
  from find_support_resistance_levels[OF ne, of 3]
  obtain support resistance where
    a: "find_support_resistance level_bars 3 = Inr (support, resistance)"
    and b: "sorted (rev support)" "sorted resistance" by blast
  from a have "support = [6, 5, 4]" "resistance = [13, 14, 15]"
    unfolding level_bars_eval by simp_all
  with a b show ?thesis by blast
qed

text \<open>
  Claim C5 as stated fails on the same eight bars with N = 3: the support list is
  \<open>[6, 5, 4]\<close>, which is not sorted ascending, and the resistance list \<open>[13, 14, 15]\<close> is
  not the three closest highs above the price among all trailing bars, which are
  \<open>[11, 12, 13]\<close>.
\<close>

theorem support_order_counterexample:
  "find_support_resistance level_bars 3 = Inr ([6, 5, 4], [13, 14, 15])
   \<and> \<not> sorted [6, 5, 4 :: real]
   \<and> take 3 (sort (filter (\<lambda>h. h > close (last level_bars)) (map high (last_rows 50 level_bars))))
       = [11, 12, 13]"
  by code_simp

section \<open>Properties of the backtest simulator\<close>

lemma loop_inv_initial: "loop_inv ps initial_state"
  by (simp add: loop_inv_def initial_state_def)

lemma open_ok_open_trade: "open_ok (open_trade symb df i conf)"
  by (simp add: open_ok_def open_trade_def Let_def)

lemma check_target_stop_cases:
  assumes "open_ok t"
  shows "check_target_stop price t =
     (if fl_ge (Val price) (target_price t) then (True, ''target'', t \<lparr> hit_target := True \<rparr>)
      else if fl_le (Val price) (stop_loss t) then (True, ''stop_loss'', t \<lparr> hit_stop_loss := True \<rparr>)
      else (False, [], t))"
  by (simp add: check_target_stop_def)

text \<open>What \<open>check_exit\<close> returns, in terms of the first condition that holds.\<close>

lemma check_exit_priority:
  assumes "open_ok t"
  shows "check_exit price sig days t =
     (case first_exit_condition price sig days t of
        None \<Rightarrow> (False, [], t)
      | Some c \<Rightarrow>
          (True,
           (if days > 30 then ''timeout'' else if sig = ''sell'' then ''signal''
            else if c = Target then ''target'' else ''stop_loss''),
           t \<lparr> hit_target := (c = Target), hit_stop_loss := (c = StopLoss) \<rparr>))"
  using assms
  by (auto simp: check_exit_def check_target_stop_def first_exit_condition_def open_ok_def)

lemma closed_ok_close_trade:
  assumes "\<not> (hit_target t \<and> hit_stop_loss t)"
  shows "closed_ok ps (close_trade df i ps t)"
  using assms by (simp add: closed_ok_def is_closed_def close_trade_def Let_def)

lemma backtest_step_flat:
  assumes "\<not> in_position st"
    and "get_signal (iloc_prefix (i + 1) df) strategy = Inr (sig, conf)"
  shows "backtest_step symb df ps strategy i st =
     (if sig = ''buy'' \<and> conf > 0.6
      then Inr (st \<lparr> in_position := True, current_trade := Some (open_trade symb df i conf) \<rparr>)
      else Inr st)"
  using assms by (simp add: backtest_step_def)

lemma backtest_step_in_position:
  assumes "in_position st" "current_trade st = Some t" "open_ok t"
    and "get_signal (iloc_prefix (i + 1) df) strategy = Inr (sig, conf)"
  shows "backtest_step symb df ps strategy i st = Inr (exit_by_priority df i ps sig st t)"
proof -
  have same: "st \<lparr> current_trade := Some t \<rparr> = st" using assms(2) by (cases st) simp
  show ?thesis
    using assms same
    by (simp add: backtest_step_def check_exit_priority exit_by_priority_def split: option.splits)
qed

lemma exit_by_priority_inv:
  assumes "loop_inv ps st" "in_position st" "current_trade st = Some t"
  shows "loop_inv ps (exit_by_priority df i ps sig st t)"
proof (cases "first_exit_condition (close (rows df ! i)) sig (holding_days df i t) t")
  case None
  then show ?thesis using assms by (simp add: exit_by_priority_def)
next
  case (Some c)
  let ?t = "t \<lparr> hit_target := (c = Target), hit_stop_loss := (c = StopLoss) \<rparr>"
  have "\<not> (hit_target ?t \<and> hit_stop_loss ?t)" by auto
  from closed_ok_close_trade[OF this]
  show ?thesis using assms Some by (simp add: exit_by_priority_def loop_inv_def)
qed

lemma backtest_step_inv:
  assumes "loop_inv ps st" "backtest_step symb df ps strategy i st = Inr st'"
  shows "loop_inv ps st'"
proof (cases "in_position st")
  case False
  show ?thesis
  proof (cases "get_signal (iloc_prefix (i + 1) df) strategy")
    case (Inl e)
    then show ?thesis using assms False by (simp add: backtest_step_def)
  next
    case (Inr sc)
    obtain sig conf where sc: "sc = (sig, conf)" by (cases sc)
    from backtest_step_flat[OF False Inr[unfolded sc], of symb ps]
    show ?thesis using assms False
      by (auto simp: loop_inv_def open_ok_open_trade split: if_splits)
  qed
next
  case True
  then obtain t where t: "current_trade st = Some t" "open_ok t"
    using assms(1) by (auto simp: loop_inv_def)
  show ?thesis
  proof (cases "get_signal (iloc_prefix (i + 1) df) strategy")
    case (Inl e)
    then show ?thesis using assms True t by (simp add: backtest_step_def)
  next
    case (Inr sc)
    obtain sig conf where sc: "sc = (sig, conf)" by (cases sc)
    from backtest_step_in_position[OF True t Inr[unfolded sc], of symb ps]
    have "st' = exit_by_priority df i ps sig st t" using assms(2) by simp
    then show ?thesis using exit_by_priority_inv[OF assms(1) True t(1)] by simp
  qed
qed

lemma backtest_loop_inv:
  "loop_inv ps st \<Longrightarrow> backtest_loop symb df ps strategy idxs st = Inr st' \<Longrightarrow> loop_inv ps st'"
proof (induction idxs arbitrary: st)
  case Nil
  then show ?case by simp
next
  case (Cons i idxs)
  from Cons.prems(2) obtain st1 where
    s1: "backtest_step symb df ps strategy i st = Inr st1"
    and s2: "backtest_loop symb df ps strategy idxs st1 = Inr st'"
    by (auto split: sum.splits)
  from backtest_step_inv[OF Cons.prems(1) s1] have "loop_inv ps st1" .
  from Cons.IH[OF this s2] show ?case .
qed

lemma backtest_loop_append:
  "backtest_loop symb df ps strategy (xs @ ys) st =
     (case backtest_loop symb df ps strategy xs st of
        Inl e \<Rightarrow> Inl e
      | Inr st1 \<Rightarrow> backtest_loop symb df ps strategy ys st1)"
  by (induction xs arbitrary: st) (auto split: sum.splits)

lemma reachable_inv:
  "backtest_loop symb df ps strategy idxs initial_state = Inr st \<Longrightarrow> loop_inv ps st"
  using backtest_loop_inv[OF loop_inv_initial] by blast

lemma loop_inv_flags:
  "loop_inv ps st \<Longrightarrow> t \<in> set (trades_l st) \<Longrightarrow> \<not> (hit_target t \<and> hit_stop_loss t)"
  by (auto simp: loop_inv_def closed_ok_def list_all_iff)


lemma exit_by_priority_target:
  assumes "fl_ge (Val (close (rows df ! i))) (target_price t)"
  shows "exit_by_priority df i ps sig st t =
     st \<lparr> trades_l := trades_l st @
             [close_trade df i ps (t \<lparr> hit_target := True, hit_stop_loss := False \<rparr>)],
          current_trade := None, in_position := False \<rparr>"
  using assms by (simp add: exit_by_priority_def first_exit_condition_def)

lemma close_trade_flags:
  "hit_target (close_trade df i ps t) = hit_target t"
  "hit_stop_loss (close_trade df i ps t) = hit_stop_loss t"
  by (simp_all add: close_trade_def Let_def)

text \<open>
  Claim C1. Let \<open>st\<close> be the state of the loop of a symbol at the start of row \<open>i\<close>. No
  trade of its list has both flags. If a position is open, one step of the loop does what
  the priority list target, stop-loss, sell signal, timeout prescribes, the first
  condition that holds being the only one applied; no trade of the resulting list has
  both flags; and if the close is at or above the target price, the step closes the
  trade with \<open>hit_target\<close> true and \<open>hit_stop_loss\<close> false, whatever the signal and the
  holding period are. (The local \<^verbatim>\<open>exit_reason\<close>, which later tests overwrite, is never
  stored or returned.)
\<close>

theorem exit_priority:
  assumes reach: "backtest_loop symb df ps strategy [50..<i] initial_state = Inr st"
  shows "(\<forall>t \<in> set (trades_l st). \<not> (hit_target t \<and> hit_stop_loss t))
    \<and> (in_position st \<longrightarrow>
         (\<exists>t. current_trade st = Some t \<and>
           (\<forall>sig conf. get_signal (iloc_prefix (i + 1) df) strategy = Inr (sig, conf) \<longrightarrow>
               backtest_step symb df ps strategy i st = Inr (exit_by_priority df i ps sig st t)
             \<and> (\<forall>t' \<in> set (trades_l (exit_by_priority df i ps sig st t)).
                   \<not> (hit_target t' \<and> hit_stop_loss t'))
             \<and> (fl_ge (Val (close (rows df ! i))) (target_price t) \<longrightarrow>
                   (\<exists>t'. exit_by_priority df i ps sig st t =
                           st \<lparr> trades_l := trades_l st @ [t'],
                                current_trade := None, in_position := False \<rparr>
                        \<and> hit_target t' \<and> \<not> hit_stop_loss t')))))"
proof -
  have inv: "loop_inv ps st" by (rule reachable_inv[OF reach])
  have a: "\<forall>t \<in> set (trades_l st). \<not> (hit_target t \<and> hit_stop_loss t)"
    using loop_inv_flags[OF inv] by blast
  have b: "\<exists>t. current_trade st = Some t \<and>
           (\<forall>sig conf. get_signal (iloc_prefix (i + 1) df) strategy = Inr (sig, conf) \<longrightarrow>
               backtest_step symb df ps strategy i st = Inr (exit_by_priority df i ps sig st t)
             \<and> (\<forall>t' \<in> set (trades_l (exit_by_priority df i ps sig st t)).
                   \<not> (hit_target t' \<and> hit_stop_loss t'))
             \<and> (fl_ge (Val (close (rows df ! i))) (target_price t) \<longrightarrow>
                   (\<exists>t'. exit_by_priority df i ps sig st t =
                           st \<lparr> trades_l := trades_l st @ [t'],
                                current_trade := None, in_position := False \<rparr>
                        \<and> hit_target t' \<and> \<not> hit_stop_loss t')))"
    if pos: "in_position st"
  proof -
    from inv pos obtain t where t: "current_trade st = Some t" "open_ok t"
      by (auto simp: loop_inv_def)
    have "backtest_step symb df ps strategy i st = Inr (exit_by_priority df i ps sig st t)
        \<and> (\<forall>t' \<in> set (trades_l (exit_by_priority df i ps sig st t)).
              \<not> (hit_target t' \<and> hit_stop_loss t'))
        \<and> (fl_ge (Val (close (rows df ! i))) (target_price t) \<longrightarrow>
              (\<exists>t'. exit_by_priority df i ps sig st t =
                      st \<lparr> trades_l := trades_l st @ [t'],
                           current_trade := None, in_position := False \<rparr>
                   \<and> hit_target t' \<and> \<not> hit_stop_loss t'))"
      if g: "get_signal (iloc_prefix (i + 1) df) strategy = Inr (sig, conf)" for sig conf
    proof -
      have s: "backtest_step symb df ps strategy i st = Inr (exit_by_priority df i ps sig st t)"
        by (rule backtest_step_in_position[OF pos t g])
      have inv': "loop_inv ps (exit_by_priority df i ps sig st t)"
        by (rule exit_by_priority_inv[OF inv pos t(1)])
      have f: "\<forall>t' \<in> set (trades_l (exit_by_priority df i ps sig st t)).
              \<not> (hit_target t' \<and> hit_stop_loss t')"
        using loop_inv_flags[OF inv'] by blast
      have tg: "\<exists>t'. exit_by_priority df i ps sig st t =
                      st \<lparr> trades_l := trades_l st @ [t'],
                           current_trade := None, in_position := False \<rparr>
                   \<and> hit_target t' \<and> \<not> hit_stop_loss t'"
        if ge: "fl_ge (Val (close (rows df ! i))) (target_price t)"
        unfolding exit_by_priority_target[OF ge]
        by (rule exI[of _ "close_trade df i ps (t \<lparr> hit_target := True, hit_stop_loss := False \<rparr>)"])
           (simp add: close_trade_flags)
      from s f tg show ?thesis by blast
    qed
    with t(1) show ?thesis by blast
  qed
  from a b show ?thesis by blast
qed

text \<open>What the simulation returns for a symbol: the list of the final loop state.\<close>

lemma backtest_symbol_cases:
  assumes "backtest_symbol fetch symb ps strategy = Inr ts"
  shows "ts = [] \<or> (\<exists>df st. fetch symb = Inr (Some df) \<and>
           simulate symb (calculate_all_indicators df) ps strategy = Inr st \<and> ts = trades_l st)"
  using assms by (auto simp: backtest_symbol_def split: sum.splits option.splits if_splits)

lemma trades_calculate_metrics: "trades (calculate_metrics r) = trades r"
  by (simp add: calculate_metrics_def Let_def)

lemma trades_run_backtest:
  "trades (run_backtest fetch symbols s e cap pct strategy) =
     concat (map (symbol_trades fetch (cap * pct / 100) strategy) symbols)"
  by (simp add: run_backtest_def Let_def new_result_def trades_calculate_metrics)



section \<open>The simulator on the sample data\<close>

lemma calc_frame:
  "length (rows (calculate_all_indicators df)) = length (rows df)"
  "columns (calculate_all_indicators df) = all_indicator_columns"
  "datetime_index (calculate_all_indicators df) = datetime_index df"
  by (simp_all add: calculate_all_indicators_def Let_def)

lemma calc_row:
  assumes "i < length (rows df)"
  shows "close (rows (calculate_all_indicators df) ! i) = close (rows df ! i)"
    and "stamp (rows (calculate_all_indicators df) ! i) = stamp (rows df ! i)"
    and "atr_14 (rows (calculate_all_indicators df) ! i) =
           calculate_atr (map high (rows df)) (map low (rows df)) (map close (rows df)) 14 ! i"
  using assms by (simp_all add: calculate_all_indicators_def Let_def)

lemma get_signal_momentum:
  assumes "i < length (rows f)" "19 \<le> i"
  shows "get_signal (iloc_prefix (Suc i) f) ''momentum'' =
     Inr (let roc_10 = roc (close (rows f ! i)) (close (rows f ! (i - 9)));
              roc_20 = roc (close (rows f ! i)) (close (rows f ! (i - 19)))
          in if fl_gt roc_10 (Val 5) \<and> fl_gt roc_20 (Val 10) then (''buy'', 0.8)
             else if fl_lt roc_10 (Val (- 5)) \<and> fl_lt roc_20 (Val (- 10)) then (''sell'', 0.8)
             else if fl_gt roc_10 (Val 2) then (''buy'', 0.6)
             else if fl_lt roc_10 (Val (- 2)) then (''sell'', 0.6)
             else (''hold'', 0.5))"
proof -
  have l: "length (rows (iloc_prefix (Suc i) f)) = Suc i"
    using assms by (simp add: iloc_prefix_def)
  have ne: "rows (iloc_prefix (Suc i) f) \<noteq> []" using l by auto
  have n: "\<And>k. k \<le> i \<Longrightarrow> rows (iloc_prefix (Suc i) f) ! k = rows f ! k"
    by (simp add: iloc_prefix_def)
  have a: "rows (iloc_prefix (Suc i) f) ! (Suc i - 1) = rows f ! i" using n[of i] by simp
  have b: "rows (iloc_prefix (Suc i) f) ! (Suc i - 10) = rows f ! (i - 9)"
    using n[of "i - 9"] assms(2) by (simp add: Suc_diff_le)
  have c: "rows (iloc_prefix (Suc i) f) ! (Suc i - 20) = rows f ! (i - 19)"
    using n[of "i - 19"] assms(2) by (simp add: Suc_diff_le)
  have "\<not> Suc i < 20" using assms(2) by simp
  then show ?thesis
    unfolding get_signal_def momentum_strategy_signal_def Let_def l a b c
    using ne by simp
qed

lemma up_rows:
  "length (rows up_bars) = 52"
  "k < 50 \<Longrightarrow> rows up_bars ! k = mk_bar (int k) 100"
  "rows up_bars ! 50 = mk_bar 50 120"
  "rows up_bars ! 51 = mk_bar 51 132"
  by (simp_all add: up_bars_def nth_append)

lemma up_cols:
  "map close (rows up_bars) = replicate 50 100 @ [120, 132]"
  "map high (rows up_bars) = replicate 50 100 @ [120, 132]"
  "map low (rows up_bars) = replicate 50 100 @ [120, 132]"
  by (simp_all add: up_bars_def mk_bar_def comp_def map_replicate_const)

lemma up_atr: "calculate_atr (replicate 50 100 @ [120, 132]) (replicate 50 100 @ [120, 132])
   (replicate 50 100 @ [120, 132]) 14 ! 50 = Val (10 / 7)"
  by code_simp

lemma get_signal_momentum_calc:
  assumes "i < length (rows raw)" "19 \<le> i"
  shows "get_signal (iloc_prefix (Suc i) (calculate_all_indicators raw)) ''momentum'' =
     Inr (let roc_10 = roc (close (rows raw ! i)) (close (rows raw ! (i - 9)));
              roc_20 = roc (close (rows raw ! i)) (close (rows raw ! (i - 19)))
          in if fl_gt roc_10 (Val 5) \<and> fl_gt roc_20 (Val 10) then (''buy'', 0.8)
             else if fl_lt roc_10 (Val (- 5)) \<and> fl_lt roc_20 (Val (- 10)) then (''sell'', 0.8)
             else if fl_gt roc_10 (Val 2) then (''buy'', 0.6)
             else if fl_lt roc_10 (Val (- 2)) then (''sell'', 0.6)
             else (''hold'', 0.5))"
proof -
  have i: "i < length (rows (calculate_all_indicators raw))" using assms by (simp add: calc_frame)
  have a: "i - 9 < length (rows raw)" "i - 19 < length (rows raw)" using assms by simp_all
  show ?thesis
    unfolding get_signal_momentum[OF i assms(2)] calc_row(1)[OF assms(1)]
      calc_row(1)[OF a(1)] calc_row(1)[OF a(2)] ..
qed

lemma roc_values:
  "roc 120 100 = Val 20" "roc 132 100 = Val 32" "roc 100 100 = Val 0" "roc 108 100 = Val 8"
  by (simp_all add: roc_def fl_sub_def)

lemma up_sig50:
  "get_signal (iloc_prefix (Suc 50) (calculate_all_indicators up_bars)) ''momentum'' = Inr (''buy'', 0.8)"
  using get_signal_momentum_calc[of 50 up_bars]
  by (simp add: up_rows mk_bar_def roc_values fl_gt_def)

lemma up_sig51:
  "get_signal (iloc_prefix (Suc 51) (calculate_all_indicators up_bars)) ''momentum'' = Inr (''buy'', 0.8)"
  using get_signal_momentum_calc[of 51 up_bars]
  by (simp add: up_rows mk_bar_def roc_values fl_gt_def)

lemma up_row50:
  "close (rows (calculate_all_indicators up_bars) ! 50) = 120"
  "stamp (rows (calculate_all_indicators up_bars) ! 50) = 4320000"
  "atr_14 (rows (calculate_all_indicators up_bars) ! 50) = Val (10 / 7)"
  using calc_row[of 50 up_bars] by (simp_all add: up_rows up_cols up_atr mk_bar_def)

lemma up_row51:
  "close (rows (calculate_all_indicators up_bars) ! 51) = 132"
  "stamp (rows (calculate_all_indicators up_bars) ! 51) = 4406400"
  using calc_row[of 51 up_bars] by (simp_all add: up_rows mk_bar_def)

lemma up_dt: "datetime_index up_bars"
  by (simp add: up_bars_def)

lemma up_open_trade:
  "open_trade ''UP'' (calculate_all_indicators up_bars) 50 (4 / 5) = up_open"
  by (simp add: open_trade_def Let_def up_row50 calc_frame all_indicator_columns_def
      up_open_def fl_sub_def)

lemma up_step50:
  "backtest_step ''UP'' (calculate_all_indicators up_bars) ps ''momentum'' 50 initial_state =
     Inr \<lparr> trades_l = [], in_position = True, current_trade = Some up_open \<rparr>"
  using up_sig50 by (simp add: backtest_step_def initial_state_def up_open_trade)

lemma up_step51:
  "backtest_step ''UP'' (calculate_all_indicators up_bars) ps ''momentum'' 51
     \<lparr> trades_l = [], in_position = True, current_trade = Some up_open \<rparr> =
     Inr \<lparr> trades_l = [up_trade ps], in_position = False, current_trade = None \<rparr>"
  using up_sig51
  by (simp add: backtest_step_def check_exit_def check_target_stop_def close_trade_def Let_def
      up_row51 up_open_def up_trade_def fl_ge_def holding_days_def calc_frame up_dt)

lemma upt_50_52: "[50..<52] = [50, 51]"
  by (simp add: upt_rec)

lemma up_simulate:
  "simulate ''UP'' (calculate_all_indicators up_bars) ps ''momentum'' =
     Inr \<lparr> trades_l = [up_trade ps], in_position = False, current_trade = None \<rparr>"
  by (simp add: simulate_def calc_frame up_rows upt_50_52 up_step50 up_step51)

lemma dn_rows:
  "length (rows dn_bars) = 53"
  "k < 51 \<Longrightarrow> rows dn_bars ! k = mk_bar (int k) 100"
  "rows dn_bars ! 51 = mk_bar 60 120"
  "rows dn_bars ! 52 = mk_bar 61 108"
  by (simp_all add: dn_bars_def nth_append)

lemma dn_cols:
  "map close (rows dn_bars) = replicate 51 100 @ [120, 108]"
  "map high (rows dn_bars) = replicate 51 100 @ [120, 108]"
  "map low (rows dn_bars) = replicate 51 100 @ [120, 108]"
  by (simp_all add: dn_bars_def mk_bar_def comp_def map_replicate_const)

lemma dn_atr: "calculate_atr (replicate 51 100 @ [120, 108]) (replicate 51 100 @ [120, 108])
   (replicate 51 100 @ [120, 108]) 14 ! 51 = Val (10 / 7)"
  by code_simp

lemma dn_dt: "datetime_index dn_bars"
  by (simp add: dn_bars_def)

lemma dn_sig50:
  "get_signal (iloc_prefix (Suc 50) (calculate_all_indicators dn_bars)) ''momentum'' = Inr (''hold'', 0.5)"
  using get_signal_momentum_calc[of 50 dn_bars]
  by (simp add: dn_rows mk_bar_def roc_values fl_gt_def)

lemma dn_sig51:
  "get_signal (iloc_prefix (Suc 51) (calculate_all_indicators dn_bars)) ''momentum'' = Inr (''buy'', 0.8)"
  using get_signal_momentum_calc[of 51 dn_bars]
  by (simp add: dn_rows mk_bar_def roc_values fl_gt_def)

lemma dn_sig52:
  "get_signal (iloc_prefix (Suc 52) (calculate_all_indicators dn_bars)) ''momentum'' = Inr (''buy'', 0.6)"
  using get_signal_momentum_calc[of 52 dn_bars]
  by (simp add: dn_rows mk_bar_def roc_values fl_gt_def)

lemma dn_row51:
  "close (rows (calculate_all_indicators dn_bars) ! 51) = 120"
  "stamp (rows (calculate_all_indicators dn_bars) ! 51) = 5184000"
  "atr_14 (rows (calculate_all_indicators dn_bars) ! 51) = Val (10 / 7)"
  using calc_row[of 51 dn_bars] by (simp_all add: dn_rows dn_cols dn_atr mk_bar_def)

lemma dn_row52:
  "close (rows (calculate_all_indicators dn_bars) ! 52) = 108"
  "stamp (rows (calculate_all_indicators dn_bars) ! 52) = 5270400"
  using calc_row[of 52 dn_bars] by (simp_all add: dn_rows mk_bar_def)

lemma dn_open_trade:
  "open_trade ''DN'' (calculate_all_indicators dn_bars) 51 (4 / 5) = dn_open"
  by (simp add: open_trade_def Let_def dn_row51 calc_frame all_indicator_columns_def
      dn_open_def fl_sub_def)

lemma dn_step50:
  "backtest_step ''DN'' (calculate_all_indicators dn_bars) ps ''momentum'' 50 initial_state =
     Inr initial_state"
  using dn_sig50 by (simp add: backtest_step_def initial_state_def)

lemma dn_step51:
  "backtest_step ''DN'' (calculate_all_indicators dn_bars) ps ''momentum'' 51 initial_state =
     Inr \<lparr> trades_l = [], in_position = True, current_trade = Some dn_open \<rparr>"
  using dn_sig51 by (simp add: backtest_step_def initial_state_def dn_open_trade)

lemma dn_step52:
  "backtest_step ''DN'' (calculate_all_indicators dn_bars) ps ''momentum'' 52
     \<lparr> trades_l = [], in_position = True, current_trade = Some dn_open \<rparr> =
     Inr \<lparr> trades_l = [dn_trade ps], in_position = False, current_trade = None \<rparr>"
  using dn_sig52
  by (simp add: backtest_step_def check_exit_def check_target_stop_def close_trade_def Let_def
      dn_row52 dn_open_def dn_trade_def fl_ge_def holding_days_def calc_frame dn_dt)

lemma upt_50_53: "[50..<53] = [50, 51, 52]"
  by (simp add: upt_rec)

lemma dn_simulate:
  "simulate ''DN'' (calculate_all_indicators dn_bars) ps ''momentum'' =
     Inr \<lparr> trades_l = [dn_trade ps], in_position = False, current_trade = None \<rparr>"
  by (simp add: simulate_def calc_frame dn_rows upt_50_53 dn_step50 dn_step51 dn_step52)

lemma sample_symbol_trades:
  "symbol_trades sample_data ps ''momentum'' ''UP'' = [up_trade ps]"
  "symbol_trades sample_data ps ''momentum'' ''DN'' = [dn_trade ps]"
  "symbol_trades sample_data ps ''momentum'' ''ERR'' = []"
  "symbol_trades sample_data ps ''momentum'' ''NONE'' = []"
  by (simp_all add: symbol_trades_def backtest_symbol_def sample_data_def up_rows dn_rows
      up_simulate dn_simulate)

section \<open>The theorems about the simulator on the sample data\<close>

lemma upt_50_51: "[50..<51] = [50]"
  by (simp add: upt_rec)

text \<open>
  The theorem on \<open>UP\<close> at row 51: the position opened at row 50 is closed at the target,
  with \<open>hit_target\<close> set and \<open>hit_stop_loss\<close> not set.
\<close>

theorem exit_priority_witness:
  "backtest_step ''UP'' (calculate_all_indicators up_bars) 10000 ''momentum'' 51
      \<lparr> trades_l = [], in_position = True, current_trade = Some up_open \<rparr>
     = Inr (exit_by_priority (calculate_all_indicators up_bars) 51 10000 ''buy''
              \<lparr> trades_l = [], in_position = True, current_trade = Some up_open \<rparr> up_open)
   \<and> (\<exists>t'. exit_by_priority (calculate_all_indicators up_bars) 51 10000 ''buy''
              \<lparr> trades_l = [], in_position = True, current_trade = Some up_open \<rparr> up_open
            = \<lparr> trades_l = [t'], in_position = False, current_trade = None \<rparr>
          \<and> hit_target t' \<and> \<not> hit_stop_loss t')"
proof -
  let ?df = "calculate_all_indicators up_bars"
  let ?st = "\<lparr> trades_l = [], in_position = True, current_trade = Some up_open \<rparr>"
  have reach: "backtest_loop ''UP'' ?df 10000 ''momentum'' [50..<51] initial_state = Inr ?st"
    by (simp add: upt_50_51 up_step50)
  have sg: "get_signal (iloc_prefix (51 + 1) ?df) ''momentum'' = Inr (''buy'', 0.8)"
    using up_sig51 by simp
  have ge: "fl_ge (Val (close (rows ?df ! 51))) (target_price up_open)"
    by (simp add: up_row51 up_open_def fl_ge_def)
  from exit_priority[OF reach] obtain t where
    t: "current_trade ?st = Some t"
    and all: "\<forall>sig conf. get_signal (iloc_prefix (51 + 1) ?df) ''momentum'' = Inr (sig, conf) \<longrightarrow>
        backtest_step ''UP'' ?df 10000 ''momentum'' 51 ?st = Inr (exit_by_priority ?df 51 10000 sig ?st t)
      \<and> (\<forall>t' \<in> set (trades_l (exit_by_priority ?df 51 10000 sig ?st t)).
            \<not> (hit_target t' \<and> hit_stop_loss t'))
      \<and> (fl_ge (Val (close (rows ?df ! 51))) (target_price t) \<longrightarrow>
            (\<exists>t'. exit_by_priority ?df 51 10000 sig ?st t =
                    ?st \<lparr> trades_l := trades_l ?st @ [t'],
                         current_trade := None, in_position := False \<rparr>
                 \<and> hit_target t' \<and> \<not> hit_stop_loss t'))"
    by auto
  from t have tu: "t = up_open" by simp
  from all sg have
    a: "backtest_step ''UP'' ?df 10000 ''momentum'' 51 ?st = Inr (exit_by_priority ?df 51 10000 ''buy'' ?st t)"
    and b: "fl_ge (Val (close (rows ?df ! 51))) (target_price t) \<longrightarrow>
            (\<exists>t'. exit_by_priority ?df 51 10000 ''buy'' ?st t =
                    ?st \<lparr> trades_l := trades_l ?st @ [t'],
                         current_trade := None, in_position := False \<rparr>
                 \<and> hit_target t' \<and> \<not> hit_stop_loss t')"
    by blast+
  from b ge tu obtain t' where
    c: "exit_by_priority ?df 51 10000 ''buy'' ?st up_open =
          ?st \<lparr> trades_l := trades_l ?st @ [t'], current_trade := None, in_position := False \<rparr>"
    and d: "hit_target t'" "\<not> hit_stop_loss t'" by blast
  from c have "exit_by_priority ?df 51 10000 ''buy'' ?st up_open =
      \<lparr> trades_l = [t'], in_position = False, current_trade = None \<rparr>" by simp
  with a tu d show ?thesis by blast
qed











section \<open>Chronology of the trades of a symbol\<close>

lemma closed_by_mono: "closed_by t b \<Longrightarrow> b \<le> b' \<Longrightarrow> closed_by t b'"
  by (auto simp: closed_by_def split: option.splits)

lemma chron_inv_mono:
  assumes "chron_inv b st" "b \<le> b'"
  shows "chron_inv b' st"
  using assms closed_by_mono[of _ b b']
  by (auto simp: chron_inv_def list_all_iff split: option.splits)

lemma chron_inv_initial: "chron_inv b initial_state"
  by (simp add: chron_inv_def initial_state_def)

lemma close_trade_dates:
  "entry_date (close_trade df i ps t) = entry_date t"
  "exit_date (close_trade df i ps t) = Some (stamp (rows df ! i))"
  by (simp_all add: close_trade_def Let_def)

lemma exit_by_priority_chron:
  assumes inv: "chron_inv b st" and cur: "current_trade st = Some t"
    and le: "b \<le> stamp (rows df ! i)"
  shows "chron_inv (stamp (rows df ! i)) (exit_by_priority df i ps sig st t)"
proof (cases "first_exit_condition (close (rows df ! i)) sig (holding_days df i t) t")
  case None
  then show ?thesis using chron_inv_mono[OF inv le] by (simp add: exit_by_priority_def)
next
  case (Some c)
  let ?s = "stamp (rows df ! i)"
  let ?t = "close_trade df i ps (t \<lparr> hit_target := (c = Target), hit_stop_loss := (c = StopLoss) \<rparr>)"
  from inv cur have e: "entry_date t \<le> b"
    and before: "list_all (\<lambda>t'. closed_by t' (entry_date t)) (trades_l st)"
    and srt: "sorted_wrt (\<lambda>t1 t2. closed_by t1 (entry_date t2)) (trades_l st)"
    and allb: "list_all (\<lambda>t. closed_by t b) (trades_l st)"
    by (simp_all add: chron_inv_def)
  have ed: "entry_date ?t = entry_date t" "exit_date ?t = Some ?s"
    by (simp_all add: close_trade_dates)
  have c1: "closed_by ?t ?s" using e le by (simp add: closed_by_def ed)
  have c2: "list_all (\<lambda>t. closed_by t ?s) (trades_l st)"
    using allb closed_by_mono[of _ b ?s] le by (auto simp: list_all_iff)
  have c3: "sorted_wrt (\<lambda>t1 t2. closed_by t1 (entry_date t2)) (trades_l st @ [?t])"
    using srt before by (auto simp: sorted_wrt_append list_all_iff ed)
  show ?thesis
    using Some c1 c2 c3 by (simp add: exit_by_priority_def chron_inv_def)
qed

lemma backtest_step_chron:
  assumes li: "loop_inv ps st" and inv: "chron_inv b st"
    and le: "b \<le> stamp (rows df ! i)"
    and step: "backtest_step symb df ps strategy i st = Inr st'"
  shows "chron_inv (stamp (rows df ! i)) st'"
proof (cases "in_position st")
  case False
  show ?thesis
  proof (cases "get_signal (iloc_prefix (i + 1) df) strategy")
    case (Inl err)
    then show ?thesis using step False by (simp add: backtest_step_def)
  next
    case (Inr sc)
    obtain sig conf where sc: "sc = (sig, conf)" by (cases sc)
    note fl = backtest_step_flat[OF False Inr[unfolded sc], of symb ps]
    show ?thesis
    proof (cases "sig = ''buy'' \<and> conf > 0.6")
      case True
      then have s': "st' = st \<lparr> in_position := True, current_trade := Some (open_trade symb df i conf) \<rparr>"
        using fl step by simp
      have ed: "entry_date (open_trade symb df i conf) = stamp (rows df ! i)"
        by (simp add: open_trade_def Let_def)
      from chron_inv_mono[OF inv le] show ?thesis
        unfolding s' by (simp add: chron_inv_def ed)
    next
      case False
      then have "st' = st" using fl step by auto
      then show ?thesis using chron_inv_mono[OF inv le] by simp
    qed
  qed
next
  case True
  then obtain t where t: "current_trade st = Some t" "open_ok t"
    using li by (auto simp: loop_inv_def)
  show ?thesis
  proof (cases "get_signal (iloc_prefix (i + 1) df) strategy")
    case (Inl err)
    then show ?thesis using step True t by (simp add: backtest_step_def)
  next
    case (Inr sc)
    obtain sig conf where sc: "sc = (sig, conf)" by (cases sc)
    from backtest_step_in_position[OF True t Inr[unfolded sc], of symb ps]
    have "st' = exit_by_priority df i ps sig st t" using step by simp
    then show ?thesis using exit_by_priority_chron[OF inv t(1) le] by simp
  qed
qed

lemma backtest_loop_chron:
  assumes "loop_inv ps st" "chron_inv b st"
    and "sorted (map (\<lambda>i. stamp (rows df ! i)) idxs)"
    and "\<forall>i \<in> set idxs. b \<le> stamp (rows df ! i)"
    and "backtest_loop symb df ps strategy idxs st = Inr st'"
  shows "\<exists>b'. chron_inv b' st'"
  using assms
proof (induction idxs arbitrary: st b)
  case Nil
  then show ?case by auto
next
  case (Cons i idxs)
  from Cons.prems(5) obtain st1 where
    s1: "backtest_step symb df ps strategy i st = Inr st1"
    and s2: "backtest_loop symb df ps strategy idxs st1 = Inr st'"
    by (auto split: sum.splits)
  have le: "b \<le> stamp (rows df ! i)" using Cons.prems(4) by simp
  have li1: "loop_inv ps st1" by (rule backtest_step_inv[OF Cons.prems(1) s1])
  have ci1: "chron_inv (stamp (rows df ! i)) st1"
    by (rule backtest_step_chron[OF Cons.prems(1,2) le s1])
  have srt: "sorted (map (\<lambda>i. stamp (rows df ! i)) idxs)"
    and ge: "\<forall>j \<in> set idxs. stamp (rows df ! i) \<le> stamp (rows df ! j)"
    using Cons.prems(3) by simp_all
  from Cons.IH[OF li1 ci1 srt ge s2] show ?case .
qed

lemma chron_inv_sorted:
  assumes "chron_inv b st"
  shows "sorted (map entry_date (trades_l st))"
    and "sorted_wrt (\<lambda>t1 t2. closed_by t1 (entry_date t2)) (trades_l st)"
proof -
  show s: "sorted_wrt (\<lambda>t1 t2. closed_by t1 (entry_date t2)) (trades_l st)"
    using assms by (simp add: chron_inv_def)
  have "sorted_wrt (\<lambda>t1 t2. entry_date t1 \<le> entry_date t2) (trades_l st)"
    by (rule sorted_wrt_mono_rel[OF _ s]) (auto simp: closed_by_def split: option.splits)
  then show "sorted (map entry_date (trades_l st))"
    by (simp add: sorted_wrt_map)
qed

lemma sorted_stamps_upt:
  assumes "sorted (map stamp rs)" "n \<le> length rs"
  shows "sorted (map (\<lambda>i. stamp (rs ! i)) [m..<n])"
proof -
  have "sorted_wrt (\<lambda>i j. stamp (rs ! i) \<le> stamp (rs ! j)) [m..<n]"
  proof (rule sorted_wrt_mono_rel[OF _ sorted_wrt_upt])
    fix i j assume "i \<in> set [m..<n]" "j \<in> set [m..<n]" "i < j"
    then have "i \<le> j" "j < length (map stamp rs)" using assms(2) by simp_all
    from sorted_nth_mono[OF assms(1) this] show "stamp (rs ! i) \<le> stamp (rs ! j)"
      using \<open>i \<le> j\<close> \<open>j < length (map stamp rs)\<close> by simp
  qed
  then show ?thesis by (simp add: sorted_wrt_map)
qed

lemma calc_stamps:
  "map stamp (rows (calculate_all_indicators raw)) = map stamp (rows raw)"
  by (rule nth_equalityI) (simp_all add: calc_frame calc_row(2))

lemma simulate_chron:
  assumes srt: "sorted (map stamp (rows df))"
    and sim: "simulate symb df ps strategy = Inr st"
  shows "sorted (map entry_date (trades_l st))
       \<and> sorted_wrt (\<lambda>t1 t2. closed_by t1 (entry_date t2)) (trades_l st)"
proof -
  let ?idxs = "[50..<length (rows df)]"
  have s: "sorted (map (\<lambda>i. stamp (rows df ! i)) ?idxs)"
    by (rule sorted_stamps_upt[OF srt]) simp
  have lp: "backtest_loop symb df ps strategy ?idxs initial_state = Inr st"
    using sim by (simp add: simulate_def)
  have "\<exists>b'. chron_inv b' st"
  proof (cases "?idxs")
    case Nil
    have "st = initial_state" using lp unfolding Nil by simp
    then show ?thesis using chron_inv_initial by blast
  next
    case (Cons i rest)
    have "\<forall>j \<in> set ?idxs. stamp (rows df ! i) \<le> stamp (rows df ! j)"
      using s unfolding Cons by simp
    from backtest_loop_chron[OF loop_inv_initial chron_inv_initial s this lp]
    show ?thesis .
  qed
  then obtain b where "chron_inv b st" ..
  from chron_inv_sorted[OF this] show ?thesis by blast
qed

lemma symbol_trades_chron:
  assumes asc: "\<forall>raw. fetch sy = Inr (Some raw) \<longrightarrow> sorted (map stamp (rows raw))"
  shows "sorted (map entry_date (symbol_trades fetch ps strategy sy))
       \<and> sorted_wrt (\<lambda>t1 t2. closed_by t1 (entry_date t2)) (symbol_trades fetch ps strategy sy)"
proof (cases "backtest_symbol fetch sy ps strategy")
  case (Inl err)
  then show ?thesis by (simp add: symbol_trades_def)
next
  case (Inr ts)
  then have st: "symbol_trades fetch ps strategy sy = ts" by (simp add: symbol_trades_def)
  from backtest_symbol_cases[OF Inr] show ?thesis
  proof
    assume "ts = []"
    then show ?thesis using st by simp
  next
    assume "\<exists>df st. fetch sy = Inr (Some df) \<and>
           simulate sy (calculate_all_indicators df) ps strategy = Inr st \<and> ts = trades_l st"
    then obtain raw s where f: "fetch sy = Inr (Some raw)"
      and sim: "simulate sy (calculate_all_indicators raw) ps strategy = Inr s"
      and ts: "ts = trades_l s" by blast
    have "sorted (map stamp (rows (calculate_all_indicators raw)))"
      unfolding calc_stamps using asc f by blast
    from simulate_chron[OF this sim] show ?thesis using st ts by simp
  qed
qed

section \<open>Properties of the performance metrics\<close>

lemma running_sum_Val:
  "running_sum (Val a) (map Val rs) = map Val (cumulative_returns a rs)"
  by (induction rs arbitrary: a) simp_all

lemma drawdown_loop_Val:
  "drawdown_loop (map Val cs) (Val p) (Val m) = Val (drawdown_real cs p m)"
proof (induction cs arbitrary: p m)
  case Nil
  then show ?case by simp
next
  case (Cons v vs)
  have p: "(if fl_gt (Val v) (Val p) then Val v else Val p) = Val (max p v)"
    by (simp add: fl_gt_def max_def)
  have d: "fl_sub (Val (max p v)) (Val v) = Val (max p v - v)"
    by (simp add: fl_sub_def)
  have m: "(if fl_gt (Val (max p v - v)) (Val m) then Val (max p v - v) else Val m)
      = Val (max m (max p v - v))"
    by (simp add: fl_gt_def max_def)
  show ?case
    by (simp only: list.map drawdown_loop.simps drawdown_real.simps Let_def p d m Cons.IH)
qed

lemma length_cumulative_returns: "length (cumulative_returns a rs) = length rs"
  by (induction rs arbitrary: a) simp_all

lemma max_drawdown_Val:
  assumes "rs \<noteq> []"
  shows "max_drawdown (map Val rs) =
    Val (drawdown_real (cumulative_returns 0 rs) (hd (cumulative_returns 0 rs)) 0)"
proof -
  have ne: "cumulative_returns 0 rs \<noteq> []" using assms by (cases rs) simp_all
  have "max_drawdown (map Val rs) =
      drawdown_loop (map Val (cumulative_returns 0 rs)) (hd (map Val (cumulative_returns 0 rs))) (Val 0)"
    by (simp add: max_drawdown_def Let_def running_sum_Val)
  also have "hd (map Val (cumulative_returns 0 rs)) = Val (hd (cumulative_returns 0 rs))"
    using ne by (simp add: hd_map)
  finally show ?thesis by (simp only: drawdown_loop_Val)
qed

text \<open>The result of the drawdown loop bounds every drop, and is one of them.\<close>

lemma drawdown_real_upper:
  "m \<le> drawdown_real cs p m
   \<and> (\<forall>j < length cs. p - cs ! j \<le> drawdown_real cs p m)
   \<and> (\<forall>i j. i \<le> j \<and> j < length cs \<longrightarrow> cs ! i - cs ! j \<le> drawdown_real cs p m)"
proof (induction cs arbitrary: p m)
  case Nil
  then show ?case by simp
next
  case (Cons v vs)
  let ?p = "max p v" and ?m = "max m (max p v - v)"
  let ?d = "drawdown_real vs ?p ?m"
  from Cons.IH[of ?m ?p] have ih1: "?m \<le> ?d"
    and ih2: "\<And>j. j < length vs \<Longrightarrow> ?p - vs ! j \<le> ?d"
    and ih3: "\<And>i j. i \<le> j \<Longrightarrow> j < length vs \<Longrightarrow> vs ! i - vs ! j \<le> ?d"
    by blast+
  have a: "m \<le> ?d" using ih1 by simp
  have q: "p - v \<le> ?d" "0 \<le> ?d"
  proof -
    have "p - v \<le> ?p - v" "0 \<le> ?p - v" by simp_all
    moreover have "?p - v \<le> ?m" by simp
    ultimately show "p - v \<le> ?d" "0 \<le> ?d" using ih1 by linarith+
  qed
  have r: "p - vs ! k \<le> ?d" "v - vs ! k \<le> ?d" if "k < length vs" for k
  proof -
    have "p - vs ! k \<le> ?p - vs ! k" "v - vs ! k \<le> ?p - vs ! k" by simp_all
    then show "p - vs ! k \<le> ?d" "v - vs ! k \<le> ?d" using ih2[OF that] by linarith+
  qed
  have b: "p - (v # vs) ! j \<le> ?d" if "j < length (v # vs)" for j
  proof (cases j)
    case 0
    then show ?thesis using q by simp
  next
    case (Suc k)
    then have "k < length vs" using that by simp
    from r(1)[OF this] show ?thesis using Suc by simp
  qed
  have c: "(v # vs) ! i - (v # vs) ! j \<le> ?d" if "i \<le> j" "j < length (v # vs)" for i j
  proof (cases j)
    case 0
    then have "i = 0" using that by simp
    then show ?thesis using 0 q by simp
  next
    case (Suc k)
    then have k: "k < length vs" using that by simp
    show ?thesis
    proof (cases i)
      case 0
      from r(2)[OF k] show ?thesis using 0 Suc by simp
    next
      case (Suc l)
      then have "l \<le> k" using that \<open>j = Suc k\<close> by simp
      from ih3[OF this k] show ?thesis using Suc \<open>j = Suc k\<close> by simp
    qed
  qed
  show ?case using a b c by simp
qed

lemma drawdown_real_attained:
  "drawdown_real cs p m = m
   \<or> (\<exists>j < length cs. drawdown_real cs p m = p - cs ! j)
   \<or> (\<exists>i j. i \<le> j \<and> j < length cs \<and> drawdown_real cs p m = cs ! i - cs ! j)"
proof (induction cs arbitrary: p m)
  case Nil
  then show ?case by simp
next
  case (Cons v vs)
  let ?p = "max p v" and ?m = "max m (max p v - v)"
  let ?d = "drawdown_real vs ?p ?m"
  let ?goal = "?d = m \<or> (\<exists>j < length (v # vs). ?d = p - (v # vs) ! j)
     \<or> (\<exists>i j. i \<le> j \<and> j < length (v # vs) \<and> ?d = (v # vs) ! i - (v # vs) ! j)"
  have pv: "p - (v # vs) ! 0 = p - v" "(v # vs) ! 0 - (v # vs) ! 0 = 0" by simp_all
  from Cons.IH[of ?p ?m] consider
      (m) "?d = ?m"
    | (p) j where "j < length vs" "?d = ?p - vs ! j"
    | (c) i j where "i \<le> j" "j < length vs" "?d = vs ! i - vs ! j"
    by blast
  then have ?goal
  proof cases
    case m
    have "?m = m \<or> ?m = p - v \<or> ?m = 0" by (auto simp: max_def)
    then consider "?d = m" | "?d = p - (v # vs) ! 0" | "?d = (v # vs) ! 0 - (v # vs) ! 0"
      using m by auto
    then show ?thesis
    proof cases
      case 1 then show ?thesis by blast
    next
      case 2
      then have "\<exists>j < length (v # vs). ?d = p - (v # vs) ! j" by (intro exI[of _ 0]) simp
      then show ?thesis by blast
    next
      case 3
      then have "\<exists>i j. i \<le> j \<and> j < length (v # vs) \<and> ?d = (v # vs) ! i - (v # vs) ! j"
        by (intro exI[of _ 0]) simp
      then show ?thesis by blast
    qed
  next
    case p
    have "?p = p \<or> ?p = v" by (auto simp: max_def)
    then show ?thesis
    proof
      assume "?p = p"
      then have "?d = p - (v # vs) ! Suc j" using p by simp
      moreover have "Suc j < length (v # vs)" using p by simp
      ultimately show ?thesis by blast
    next
      assume "?p = v"
      then have "?d = (v # vs) ! 0 - (v # vs) ! Suc j" using p by simp
      moreover have "0 \<le> Suc j \<and> Suc j < length (v # vs)" using p by simp
      ultimately show ?thesis by blast
    qed
  next
    case c
    then have "?d = (v # vs) ! Suc i - (v # vs) ! Suc j" by simp
    moreover have "Suc i \<le> Suc j \<and> Suc j < length (v # vs)" using c by simp
    ultimately show ?thesis by blast
  qed
  then show ?case by simp
qed

lemma run_backtest_metrics:
  assumes "trades (run_backtest fetch symbols s e cap pct strategy) \<noteq> []"
  shows "run_backtest fetch symbols s e cap pct strategy =
     calculate_metrics (new_result s e symbols cap
       \<lparr> trades := concat (map (symbol_trades fetch (cap * pct / 100) strategy) symbols) \<rparr>)"
  using assms unfolding trades_run_backtest
  by (auto simp add: run_backtest_def Let_def)

lemma run_backtest_empty:
  assumes "trades (run_backtest fetch symbols s e cap pct strategy) = []"
  shows "run_backtest fetch symbols s e cap pct strategy = new_result s e symbols cap"
  using assms unfolding trades_run_backtest
  by (auto simp add: run_backtest_def Let_def)

lemma calculate_metrics_counts:
  assumes "trades r \<noteq> []"
  shows "total_trades (calculate_metrics r) = length (trades r)"
    and "winning_trades (calculate_metrics r) = length (filter is_profitable (trades r))"
    and "win_rate (calculate_metrics r) =
           real (length (filter is_profitable (trades r))) / real (length (trades r)) * 100"
    and "max_drawdown_percent (calculate_metrics r) = max_drawdown (map return_percent (trades r))"
  using assms by (simp_all add: calculate_metrics_def Let_def)

text \<open>
  Claim C7, as amended. For every run with at least one trade, the reported win rate is
  the percentage \<open>winning_trades / total_trades * 100\<close>, where the winning trades are
  those with \<open>return_percent > 0\<close> and \<open>total_trades\<close> is the number of trades.
\<close>

theorem win_rate_percentage:
  assumes r: "r = run_backtest fetch symbols s e cap pct strategy" and ne: "trades r \<noteq> []"
  shows "total_trades r = length (trades r)
       \<and> 0 < total_trades r
       \<and> winning_trades r = length (filter (\<lambda>t. fl_gt (return_percent t) (Val 0)) (trades r))
       \<and> win_rate r = real (winning_trades r) / real (total_trades r) * 100"
proof -
  let ?base = "new_result s e symbols cap
       \<lparr> trades := concat (map (symbol_trades fetch (cap * pct / 100) strategy) symbols) \<rparr>"
  have e: "r = calculate_metrics ?base" using run_backtest_metrics ne r by blast
  have t: "trades ?base = trades r" unfolding e by (simp add: trades_calculate_metrics)
  have n0: "trades ?base \<noteq> []" using t ne by simp
  have p: "is_profitable = (\<lambda>t. fl_gt (return_percent t) (Val 0))"
    by (rule ext) (simp add: is_profitable_def)
  have a: "total_trades r = length (trades r)"
    using calculate_metrics_counts(1)[OF n0] t e by simp
  have b: "winning_trades r = length (filter (\<lambda>t. fl_gt (return_percent t) (Val 0)) (trades r))"
    using calculate_metrics_counts(2)[OF n0] t e p by simp
  have c: "win_rate r = real (winning_trades r) / real (total_trades r) * 100"
    using calculate_metrics_counts(3)[OF n0] t e a b p by simp
  from a b c ne show ?thesis by simp
qed

lemma up_run:
  "trades (run_backtest sample_data [''UP''] 0 100 100000 10 ''momentum'') = [up_trade 10000]"
  by (simp add: trades_run_backtest sample_symbol_trades)

lemma up_profitable: "is_profitable (up_trade ps)" "\<not> is_profitable (dn_trade ps)"
  by (simp_all add: is_profitable_def up_trade_def dn_trade_def fl_gt_def)

text \<open>The theorem on a run over \<open>UP\<close>: one trade, a winning one, win rate 100.\<close>

theorem win_rate_percentage_witness:
  "total_trades (run_backtest sample_data [''UP''] 0 100 100000 10 ''momentum'') = 1
   \<and> winning_trades (run_backtest sample_data [''UP''] 0 100 100000 10 ''momentum'') = 1
   \<and> win_rate (run_backtest sample_data [''UP''] 0 100 100000 10 ''momentum'') = 100"
proof -
  let ?r = "run_backtest sample_data [''UP''] 0 100 100000 10 ''momentum''"
  have ne: "trades ?r \<noteq> []" by (simp add: up_run)
  have f: "filter (\<lambda>t. fl_gt (return_percent t) (Val 0)) [up_trade 10000] = [up_trade 10000]"
    using up_profitable(1)[of 10000] by (simp add: is_profitable_def)
  from win_rate_percentage[OF refl ne] show ?thesis
    unfolding up_run f by simp
qed

text \<open>
  Claim C7 as stated fails on the run over \<open>UP\<close>: one winning trade out of one, and the
  reported win rate is 100, not \<open>winning_trades / total_trades = 1\<close>.
\<close>

theorem win_rate_counterexample:
  "winning_trades (run_backtest sample_data [''UP''] 0 100 100000 10 ''momentum'') = 1
   \<and> total_trades (run_backtest sample_data [''UP''] 0 100 100000 10 ''momentum'') = 1
   \<and> win_rate (run_backtest sample_data [''UP''] 0 100 100000 10 ''momentum'') = 100
   \<and> win_rate (run_backtest sample_data [''UP''] 0 100 100000 10 ''momentum'') \<noteq>
       real (winning_trades (run_backtest sample_data [''UP''] 0 100 100000 10 ''momentum''))
       / real (total_trades (run_backtest sample_data [''UP''] 0 100 100000 10 ''momentum''))"
proof -
  let ?r = "run_backtest sample_data [''UP''] 0 100 100000 10 ''momentum''"
  let ?base = "new_result 0 100 [''UP''] 100000 \<lparr> trades := [up_trade 10000] \<rparr>"
  have ne: "trades ?r \<noteq> []" by (simp add: up_run)
  have e: "?r = calculate_metrics ?base"
    using run_backtest_metrics[OF ne] by (simp add: sample_symbol_trades)
  have n0: "trades ?base \<noteq> []" by simp
  have a: "total_trades ?r = 1" "winning_trades ?r = 1" "win_rate ?r = 100"
    unfolding e using calculate_metrics_counts(1,2,3)[OF n0] up_profitable(1)[of 10000]
    by simp_all
  show ?thesis unfolding a by simp
qed

lemma symbol_trades_no_data:
  assumes "(\<exists>err. fetch sy = Inl err) \<or> fetch sy = Inr None
           \<or> (\<exists>df. fetch sy = Inr (Some df) \<and> length (rows df) < 50)"
  shows "symbol_trades fetch ps strategy sy = []"
  using assms by (auto simp: symbol_trades_def backtest_symbol_def)

text \<open>
  Claim C8, as amended. A run that produces no trade returns the fresh result, whatever
  the symbols did (an exception of a symbol is caught and counts as no trade): its trade
  list is empty, win rate and Sharpe ratio are 0, and the profit factor is 0, the default
  of the dataclass; the infinite value is assigned only by \<^verbatim>\<open>_calculate_metrics\<close>, which
  such a run does not reach. A run where every symbol fails, has no data or has fewer
  than 50 rows is such a run.
\<close>

theorem zero_trades_result:
  shows "(trades (run_backtest fetch symbols s e cap pct strategy) = [] \<longrightarrow>
            run_backtest fetch symbols s e cap pct strategy = new_result s e symbols cap
          \<and> win_rate (run_backtest fetch symbols s e cap pct strategy) = 0
          \<and> sharpe_ratio (run_backtest fetch symbols s e cap pct strategy) = Val 0
          \<and> profit_factor (run_backtest fetch symbols s e cap pct strategy) = Val 0
          \<and> max_drawdown_percent (run_backtest fetch symbols s e cap pct strategy) = Val 0
          \<and> total_trades (run_backtest fetch symbols s e cap pct strategy) = 0)
       \<and> ((\<forall>sy \<in> set symbols. (\<exists>err. fetch sy = Inl err) \<or> fetch sy = Inr None
              \<or> (\<exists>df. fetch sy = Inr (Some df) \<and> length (rows df) < 50)) \<longrightarrow>
            trades (run_backtest fetch symbols s e cap pct strategy) = [])"
proof -
  let ?r = "run_backtest fetch symbols s e cap pct strategy"
  have a: "?r = new_result s e symbols cap \<and> win_rate ?r = 0 \<and> sharpe_ratio ?r = Val 0
      \<and> profit_factor ?r = Val 0 \<and> max_drawdown_percent ?r = Val 0 \<and> total_trades ?r = 0"
    if "trades ?r = []"
    unfolding run_backtest_empty[OF that] by (simp add: new_result_def)
  have b: "trades ?r = []"
    if "\<forall>sy \<in> set symbols. (\<exists>err. fetch sy = Inl err) \<or> fetch sy = Inr None
              \<or> (\<exists>df. fetch sy = Inr (Some df) \<and> length (rows df) < 50)"
    unfolding trades_run_backtest using that symbol_trades_no_data[of fetch] by simp
  from a b show ?thesis by blast
qed

text \<open>The theorem on a run over a symbol whose provider fails and a symbol without data.\<close>

theorem zero_trades_result_witness:
  "trades (run_backtest sample_data [''ERR'', ''NONE''] 0 100 100000 10 ''momentum'') = []
   \<and> win_rate (run_backtest sample_data [''ERR'', ''NONE''] 0 100 100000 10 ''momentum'') = 0
   \<and> sharpe_ratio (run_backtest sample_data [''ERR'', ''NONE''] 0 100 100000 10 ''momentum'') = Val 0
   \<and> profit_factor (run_backtest sample_data [''ERR'', ''NONE''] 0 100 100000 10 ''momentum'') = Val 0"
proof -
  have "\<forall>sy \<in> set [''ERR'', ''NONE'']. (\<exists>err. sample_data sy = Inl err) \<or> sample_data sy = Inr None
              \<or> (\<exists>df. sample_data sy = Inr (Some df) \<and> length (rows df) < 50)"
    by (simp add: sample_data_def)
  with zero_trades_result[of sample_data "[''ERR'', ''NONE'']" 0 100 100000 10 "''momentum''"]
  show ?thesis by blast
qed

lemma calculate_metrics_profit_factor:
  assumes "trades r \<noteq> []"
  shows "profit_factor (calculate_metrics r) =
    (if fl_gt (fl_abs (fl_sum (map profit_loss (filter (\<lambda>t. \<not> is_profitable t) (trades r))))) (Val 0)
     then fl_div (fl_sum (map profit_loss (filter is_profitable (trades r))))
            (fl_abs (fl_sum (map profit_loss (filter (\<lambda>t. \<not> is_profitable t) (trades r)))))
     else PInf)"
  using assms by (simp add: calculate_metrics_def Let_def)

text \<open>
  Claim C8 as stated fails on that run: its profit factor is 0, not the unbounded value,
  which is what a run with a winning trade and no losing trade reports.
\<close>

theorem zero_trades_profit_factor_counterexample:
  "trades (run_backtest sample_data [''ERR'', ''NONE''] 0 100 100000 10 ''momentum'') = []
   \<and> profit_factor (run_backtest sample_data [''ERR'', ''NONE''] 0 100 100000 10 ''momentum'') = Val 0
   \<and> profit_factor (run_backtest sample_data [''ERR'', ''NONE''] 0 100 100000 10 ''momentum'') \<noteq> PInf
   \<and> profit_factor (run_backtest sample_data [''UP''] 0 100 100000 10 ''momentum'') = PInf"
proof -
  let ?z = "run_backtest sample_data [''ERR'', ''NONE''] 0 100 100000 10 ''momentum''"
  let ?u = "run_backtest sample_data [''UP''] 0 100 100000 10 ''momentum''"
  let ?base = "new_result 0 100 [''UP''] 100000 \<lparr> trades := [up_trade 10000] \<rparr>"
  have z: "trades ?z = []" by (simp add: trades_run_backtest sample_symbol_trades)
  have pz: "profit_factor ?z = Val 0"
    unfolding run_backtest_empty[OF z] by (simp add: new_result_def)
  have ne: "trades ?u \<noteq> []" by (simp add: up_run)
  have e: "?u = calculate_metrics ?base"
    using run_backtest_metrics[OF ne] by (simp add: sample_symbol_trades)
  have n0: "trades ?base \<noteq> []" by simp
  have pu: "profit_factor ?u = PInf"
    unfolding e calculate_metrics_profit_factor[OF n0] using up_profitable(1)[of 10000]
    by (simp add: fl_sum_def fl_gt_def)
  from z pz pu show ?thesis by simp
qed

text \<open>
  Claim C9, as amended. For every run with at least one trade and finite returns, the
  trades of the result are those of the symbols, symbol by symbol in the order of the
  symbol list, and the reported maximum drawdown is the largest drop
  \<open>cum ! i - cum ! j\<close>, \<open>i \<le> j\<close>, of the cumulative-return curve \<open>cum\<close> built by the
  running sum of the returns in that order: it bounds every such drop and is one of
  them. Where the bars of every symbol ascend in time, the trades of each symbol are in
  chronological order, each one closed before the next is entered, so that the trades of
  a run over a single symbol are in chronological order.
\<close>

theorem max_drawdown_list_order:
  assumes r: "r = run_backtest fetch symbols s e cap pct strategy"
    and ne: "trades r \<noteq> []"
    and fin: "map return_percent (trades r) = map Val rs"
  shows "trades r = concat (map (symbol_trades fetch (cap * pct / 100) strategy) symbols)
       \<and> (\<exists>d. max_drawdown_percent r = Val d
             \<and> (\<forall>i j. i \<le> j \<and> j < length rs \<longrightarrow>
                   cumulative_returns 0 rs ! i - cumulative_returns 0 rs ! j \<le> d)
             \<and> (\<exists>i j. i \<le> j \<and> j < length rs
                   \<and> d = cumulative_returns 0 rs ! i - cumulative_returns 0 rs ! j))
       \<and> ((\<forall>sy \<in> set symbols. \<forall>raw. fetch sy = Inr (Some raw) \<longrightarrow> sorted (map stamp (rows raw)))
            \<longrightarrow>
              (\<forall>sy \<in> set symbols.
                  chronological (symbol_trades fetch (cap * pct / 100) strategy sy) =
                    symbol_trades fetch (cap * pct / 100) strategy sy
                \<and> sorted_wrt (\<lambda>t1 t2. closed_by t1 (entry_date t2))
                    (symbol_trades fetch (cap * pct / 100) strategy sy))
            \<and> ((\<exists>sy. symbols = [sy]) \<longrightarrow> chronological (trades r) = trades r))"
proof -
  let ?base = "new_result s e symbols cap
       \<lparr> trades := concat (map (symbol_trades fetch (cap * pct / 100) strategy) symbols) \<rparr>"
  let ?cs = "cumulative_returns 0 rs"
  let ?d = "drawdown_real ?cs (hd ?cs) 0"
  have e: "r = calculate_metrics ?base" using run_backtest_metrics ne r by blast
  have t: "trades ?base = trades r" unfolding e by (simp add: trades_calculate_metrics)
  have n0: "trades ?base \<noteq> []" using t ne by simp
  have tr: "trades r = concat (map (symbol_trades fetch (cap * pct / 100) strategy) symbols)"
    unfolding r by (rule trades_run_backtest)
  have "length rs = length (trades r)"
    using arg_cong[OF fin, of length] by simp
  then have rne: "rs \<noteq> []" using ne by auto
  have len: "length ?cs = length rs" by (rule length_cumulative_returns)
  have cne: "?cs \<noteq> []" using len rne by auto
  have hd0: "hd ?cs = ?cs ! 0" using cne by (simp add: hd_conv_nth)
  have pos: "0 < length ?cs" using cne by simp
  have md: "max_drawdown_percent r = Val ?d"
    using calculate_metrics_counts(4)[OF n0] t e fin max_drawdown_Val[OF rne] by simp
  have ub: "\<forall>i j. i \<le> j \<and> j < length rs \<longrightarrow> ?cs ! i - ?cs ! j \<le> ?d"
    using drawdown_real_upper[of 0 ?cs "hd ?cs"] len by simp
  have at: "\<exists>i j. i \<le> j \<and> j < length rs \<and> ?d = ?cs ! i - ?cs ! j"
  proof -
    from drawdown_real_attained[of ?cs "hd ?cs" 0] consider
        (z) "?d = 0"
      | (p) j where "j < length ?cs" "?d = hd ?cs - ?cs ! j"
      | (c) i j where "i \<le> j" "j < length ?cs" "?d = ?cs ! i - ?cs ! j"
      by blast
    then show ?thesis
    proof cases
      case z
      then have "(0::nat) \<le> 0 \<and> 0 < length rs \<and> ?d = ?cs ! 0 - ?cs ! 0" using pos len by simp
      then show ?thesis by blast
    next
      case p
      then have "0 \<le> j \<and> j < length rs \<and> ?d = ?cs ! 0 - ?cs ! j" using hd0 len by simp
      then show ?thesis by blast
    next
      case c
      then have "i \<le> j \<and> j < length rs \<and> ?d = ?cs ! i - ?cs ! j" using len by simp
      then show ?thesis by blast
    qed
  qed
  have ch: "(\<forall>sy \<in> set symbols.
                  chronological (symbol_trades fetch (cap * pct / 100) strategy sy) =
                    symbol_trades fetch (cap * pct / 100) strategy sy
                \<and> sorted_wrt (\<lambda>t1 t2. closed_by t1 (entry_date t2))
                    (symbol_trades fetch (cap * pct / 100) strategy sy))
            \<and> ((\<exists>sy. symbols = [sy]) \<longrightarrow> chronological (trades r) = trades r)"
    if asc: "\<forall>sy \<in> set symbols. \<forall>raw. fetch sy = Inr (Some raw) \<longrightarrow> sorted (map stamp (rows raw))"
  proof -
    have one: "chronological (symbol_trades fetch (cap * pct / 100) strategy sy) =
                    symbol_trades fetch (cap * pct / 100) strategy sy
                \<and> sorted_wrt (\<lambda>t1 t2. closed_by t1 (entry_date t2))
                    (symbol_trades fetch (cap * pct / 100) strategy sy)"
      if "sy \<in> set symbols" for sy
    proof -
      have a: "\<forall>raw. fetch sy = Inr (Some raw) \<longrightarrow> sorted (map stamp (rows raw))"
        using asc that by blast
      from symbol_trades_chron[of fetch sy "cap * pct / 100" strategy] a
      show ?thesis by (simp add: chronological_def sort_key_id_if_sorted)
    qed
    have single: "chronological (trades r) = trades r" if "\<exists>sy. symbols = [sy]"
    proof -
      from that obtain sy where sy: "symbols = [sy]" ..
      have "trades r = symbol_trades fetch (cap * pct / 100) strategy sy"
        unfolding tr sy by simp
      then show ?thesis using one[of sy] sy by simp
    qed
    from one single show ?thesis by blast
  qed
  from tr md ub at ch show ?thesis by blast
qed

lemma dn_up_run:
  "trades (run_backtest sample_data [''DN'', ''UP''] 0 100 100000 10 ''momentum'') =
     [dn_trade 10000, up_trade 10000]"
  by (simp add: trades_run_backtest sample_symbol_trades)

lemma sample_returns:
  "return_percent (dn_trade ps) = Val (- 10)" "return_percent (up_trade ps) = Val 10"
  "entry_date (dn_trade ps) = 5184000" "entry_date (up_trade ps) = 4320000"
  by (simp_all add: dn_trade_def up_trade_def dn_open_def up_open_def)

lemma dn_up_drawdown:
  "max_drawdown_percent (run_backtest sample_data [''DN'', ''UP''] 0 100 100000 10 ''momentum'') = Val 0"
proof -
  let ?r = "run_backtest sample_data [''DN'', ''UP''] 0 100 100000 10 ''momentum''"
  let ?base = "new_result 0 100 [''DN'', ''UP''] 100000 \<lparr> trades := [dn_trade 10000, up_trade 10000] \<rparr>"
  have ne: "trades ?r \<noteq> []" by (simp add: dn_up_run)
  have e: "?r = calculate_metrics ?base"
    using run_backtest_metrics[OF ne] by (simp add: sample_symbol_trades)
  have n0: "trades ?base \<noteq> []" by simp
  show ?thesis
    unfolding e calculate_metrics_counts(4)[OF n0]
    by (simp add: sample_returns max_drawdown_def Let_def fl_gt_def fl_sub_def)
qed

lemma sorted_days: "sorted (map (\<lambda>d. 86400 * int d) [0..<n])"
proof -
  have "sorted_wrt (\<lambda>i j. 86400 * int i \<le> 86400 * int j) [0..<n]"
    by (rule sorted_wrt_mono_rel[OF _ sorted_wrt_upt]) simp
  then show ?thesis by (simp add: sorted_wrt_map)
qed

lemma sample_stamps_sorted:
  "sorted (map stamp (rows up_bars))" "sorted (map stamp (rows dn_bars))"
proof -
  have u: "map stamp (rows up_bars) = map (\<lambda>d. 86400 * int d) [0..<50] @ [4320000, 4406400]"
    by (simp add: up_bars_def mk_bar_def comp_def)
  have d: "map stamp (rows dn_bars) = map (\<lambda>d. 86400 * int d) [0..<51] @ [5184000, 5270400]"
    by (simp add: dn_bars_def mk_bar_def comp_def)
  show "sorted (map stamp (rows up_bars))"
    unfolding u sorted_append using sorted_days[of 50] by auto
  show "sorted (map stamp (rows dn_bars))"
    unfolding d sorted_append using sorted_days[of 51] by auto
qed

lemma sample_data_sorted:
  "\<forall>sy \<in> set syms. \<forall>raw. sample_data sy = Inr (Some raw) \<longrightarrow> sorted (map stamp (rows raw))"
  using sample_stamps_sorted by (auto simp: sample_data_def split: if_splits)

lemma up_dn_run:
  "trades (run_backtest sample_data [''UP'', ''DN''] 0 100 100000 10 ''momentum'') =
     [up_trade 10000, dn_trade 10000]"
  by (simp add: trades_run_backtest sample_symbol_trades)

lemma up_dn_drawdown:
  "max_drawdown_percent (run_backtest sample_data [''UP'', ''DN''] 0 100 100000 10 ''momentum'') = Val 10"
proof -
  let ?r = "run_backtest sample_data [''UP'', ''DN''] 0 100 100000 10 ''momentum''"
  let ?base = "new_result 0 100 [''UP'', ''DN''] 100000 \<lparr> trades := [up_trade 10000, dn_trade 10000] \<rparr>"
  have ne: "trades ?r \<noteq> []" by (simp add: up_dn_run)
  have e: "?r = calculate_metrics ?base"
    using run_backtest_metrics[OF ne] by (simp add: sample_symbol_trades)
  have n0: "trades ?base \<noteq> []" by simp
  show ?thesis
    unfolding e calculate_metrics_counts(4)[OF n0]
    by (simp add: sample_returns max_drawdown_def Let_def fl_gt_def fl_sub_def)
qed

text \<open>
  The theorem on the sample data, whose bars ascend in time. The run over \<open>UP\<close> and
  \<open>DN\<close>, in this order, has the returns 10 and -10 and the drawdown 10; the trades of
  \<open>DN\<close>, and those of the run over \<open>UP\<close> alone, are in chronological order.
\<close>

theorem max_drawdown_list_order_witness:
  "trades (run_backtest sample_data [''UP'', ''DN''] 0 100 100000 10 ''momentum'') =
     [up_trade 10000, dn_trade 10000]
   \<and> (\<exists>d. max_drawdown_percent (run_backtest sample_data [''UP'', ''DN''] 0 100 100000 10 ''momentum'')
        = Val d
     \<and> cumulative_returns 0 [10, - 10] ! 0 - cumulative_returns 0 [10, - 10] ! 1 \<le> d
     \<and> d = 10)
   \<and> chronological (symbol_trades sample_data (100000 * 10 / 100) ''momentum'' ''DN'') =
       symbol_trades sample_data (100000 * 10 / 100) ''momentum'' ''DN''
   \<and> chronological (trades (run_backtest sample_data [''UP''] 0 100 100000 10 ''momentum'')) =
       trades (run_backtest sample_data [''UP''] 0 100 100000 10 ''momentum'')"
proof -
  let ?r = "run_backtest sample_data [''UP'', ''DN''] 0 100 100000 10 ''momentum''"
  let ?u = "run_backtest sample_data [''UP''] 0 100 100000 10 ''momentum''"
  have ne: "trades ?r \<noteq> []" by (simp add: up_dn_run)
  have fin: "map return_percent (trades ?r) = map Val [10, - 10]"
    by (simp add: up_dn_run sample_returns)
  note main = max_drawdown_list_order[OF refl ne fin]
  from main obtain d where
    a: "max_drawdown_percent ?r = Val d"
    and b: "\<forall>i j. i \<le> j \<and> j < length [10, - 10 :: real] \<longrightarrow>
           cumulative_returns 0 [10, - 10] ! i - cumulative_returns 0 [10, - 10] ! j \<le> d"
    by blast
  from b have c: "cumulative_returns 0 [10, - 10] ! 0 - cumulative_returns 0 [10, - 10] ! 1 \<le> d"
    by (auto simp del: cumulative_returns.simps)
  from a have d10: "d = 10" unfolding up_dn_drawdown by simp
  from main sample_data_sorted[of "[''UP'', ''DN'']"] have
    "\<forall>sy \<in> set [''UP'', ''DN''].
        chronological (symbol_trades sample_data (100000 * 10 / 100) ''momentum'' sy) =
          symbol_trades sample_data (100000 * 10 / 100) ''momentum'' sy"
    by blast
  then have dn: "chronological (symbol_trades sample_data (100000 * 10 / 100) ''momentum'' ''DN'') =
       symbol_trades sample_data (100000 * 10 / 100) ''momentum'' ''DN''" by simp
  have une: "trades ?u \<noteq> []" by (simp add: up_run)
  have ufin: "map return_percent (trades ?u) = map Val [10]"
    by (simp add: up_run sample_returns)
  from max_drawdown_list_order[OF refl une ufin] sample_data_sorted[of "[''UP'']"]
  have up: "chronological (trades ?u) = trades ?u" by blast
  from up_dn_run a c d10 dn up show ?thesis by blast
qed

text \<open>
  Claim C9 as stated fails on the run over \<open>DN\<close> and \<open>UP\<close>, in this order. The trade of \<open>DN\<close> (entered on day 60, return
  -10) precedes the trade of \<open>UP\<close> (entered on day 50, return +10) in the list; the
  reported drawdown is 0, while the curve of the trades in chronological order, 10 then
  0, has a drawdown of 10.
\<close>

theorem max_drawdown_order_counterexample:
  "trades (run_backtest sample_data [''DN'', ''UP''] 0 100 100000 10 ''momentum'') =
     [dn_trade 10000, up_trade 10000]
   \<and> chronological [dn_trade 10000, up_trade 10000] = [up_trade 10000, dn_trade 10000]
   \<and> max_drawdown_percent (run_backtest sample_data [''DN'', ''UP''] 0 100 100000 10 ''momentum'')
       = Val 0
   \<and> max_drawdown (map return_percent (chronological [dn_trade 10000, up_trade 10000])) = Val 10"
proof -
  have c: "chronological [dn_trade 10000, up_trade 10000] = [up_trade 10000, dn_trade 10000]"
    by (simp add: chronological_def sample_returns)
  have m: "max_drawdown (map return_percent [up_trade 10000, dn_trade 10000]) = Val 10"
    by (simp add: sample_returns max_drawdown_def Let_def fl_gt_def fl_sub_def)
  from dn_up_run dn_up_drawdown c m show ?thesis by simp
qed

end
